theory Spec2Isabelle
  imports Complex_Main
begin

section \<open>Values shared by the models\<close>

text \<open>
  Object ids are numbers handed out by a generator; the program only compares them for
  equality. A datetime is a point on a linear time axis. Values stored under
  \<open>Dict[str, Any]\<close> are Python values; the cases below are the ones the backend puts
  there. Floating-point numbers are read as the reals they denote.
\<close>

type_synonym object_id = nat

type_synonym datetime = int

datatype pyval = PyNone | PyBool bool | PyInt int | PyFloat real | PyStr string

text \<open>Python truthiness, as used by the operator \<open>or\<close>.\<close>

fun truthy :: "pyval \<Rightarrow> bool" where
  "truthy PyNone = False"
| "truthy (PyBool b) = b"
| "truthy (PyInt n) = (n \<noteq> 0)"
| "truthy (PyFloat x) = (x \<noteq> 0)"
| "truthy (PyStr s) = (s \<noteq> [])"

definition py_or :: "pyval \<Rightarrow> pyval \<Rightarrow> pyval" where
  "py_or a b = (if truthy a then a else b)"

type_synonym pydict = "(string \<times> pyval) list"

definition dict_get :: "pydict \<Rightarrow> string \<Rightarrow> pyval" where
  \<comment> \<open>\<open>d.get(k)\<close>: the value, or \<open>None\<close> when the key is absent.\<close>
  "dict_get d k = (case map_of d k of None \<Rightarrow> PyNone | Some v \<Rightarrow> v)"

definition dict_get_default :: "pydict \<Rightarrow> string \<Rightarrow> pyval \<Rightarrow> pyval" where
  \<comment> \<open>\<open>d.get(k, default)\<close>.\<close>
  "dict_get_default d k dflt = (case map_of d k of None \<Rightarrow> dflt | Some v \<Rightarrow> v)"

fun dict_set :: "string \<Rightarrow> pyval \<Rightarrow> pydict \<Rightarrow> pydict" where
  "dict_set k v [] = [(k, v)]"
| "dict_set k v ((k', v') # d) = (if k' = k then (k, v) # d else (k', v') # dict_set k v d)"

definition dict_update :: "pydict \<Rightarrow> pydict \<Rightarrow> pydict" where
  \<comment> \<open>\<open>d.update(other)\<close>.\<close>
  "dict_update d other = fold (\<lambda>(k, v). dict_set k v) other d"

datatype exn = Exception string

fun str :: "exn \<Rightarrow> string" where
  "str (Exception s) = s"

section \<open>app/models/conversation.py\<close>

datatype MessageType = USER | ASSISTANT | SYSTEM

datatype MessageStatus = PENDING | PROCESSING | COMPLETED | FAILED

datatype ConversationStatus = ACTIVE | PAUSED | CONV_COMPLETED | ARCHIVED

text \<open>
  The fields \<open>model_used\<close>, \<open>confidence_score\<close> and \<open>processing_time\<close> are optional and are
  assigned from \<open>metadata.get(...)\<close>, so they hold Python values.
\<close>

record message =
  m_id :: object_id
  conversation_id :: object_id
  content :: string
  message_type :: MessageType
  m_status :: MessageStatus
  timestamp :: datetime
  model_used :: pyval
  confidence_score :: pyval
  processing_time :: pyval
  m_metadata :: pydict

record conversation =
  c_id :: object_id
  user_id :: object_id
  title :: "string option"
  c_status :: ConversationStatus
  created_at :: datetime
  updated_at :: datetime
  model_config :: pydict
  context_window :: int
  message_count :: int
  total_tokens_used :: int
  c_metadata :: pydict

subsection \<open>The entity store and the clock\<close>

text \<open>
  The two collections are lists of documents in insertion order. \<open>next_oid\<close> is the
  generator of fresh object ids. \<open>clock\<close> gives the successive readings of
  \<open>datetime.utcnow()\<close> and \<open>ticks\<close> counts the readings taken so far. \<open>journal\<close> records
  every write sent to the store, in order; no operation reads it.

  Store operations are taken to succeed and requests to run one at a time: a failing
  store, a cancelled request and interleaved requests are outside this model.
\<close>

datatype store_write =
    InsertConversation conversation
  | SaveConversation conversation
  | DeleteConversation object_id
  | InsertMessage message
  | SaveMessage message
  | DeleteMessages object_id

record world =
  conversations :: "conversation list"
  messages :: "message list"
  next_oid :: object_id
  clock :: "nat \<Rightarrow> datetime"
  ticks :: nat
  journal :: "store_write list"

definition utcnow :: "world \<Rightarrow> datetime \<times> world" where
  "utcnow w = (clock w (ticks w), w\<lparr>ticks := Suc (ticks w)\<rparr>)"

definition Conversation_get :: "object_id \<Rightarrow> world \<Rightarrow> conversation option" where
  \<comment> \<open>\<open>Conversation.get(id)\<close>: the document with that id, or \<open>None\<close>.\<close>
  "Conversation_get i w = find (\<lambda>c. c_id c = i) (conversations w)"

definition Conversation_insert :: "conversation \<Rightarrow> world \<Rightarrow> conversation \<times> world" where
  \<comment> \<open>\<open>insert()\<close> gives the document a fresh id and stores it.\<close>
  "Conversation_insert c w =
     (let c' = c\<lparr>c_id := next_oid w\<rparr>
      in (c', w\<lparr>conversations := conversations w @ [c'],
                 next_oid := Suc (next_oid w),
                 journal := journal w @ [InsertConversation c']\<rparr>))"

definition upsert :: "('a \<Rightarrow> object_id) \<Rightarrow> 'a \<Rightarrow> 'a list \<Rightarrow> 'a list" where
  \<comment> \<open>What \<open>save()\<close> does to a collection: the stored document of the same id is
      replaced; when there is none, the document is stored.\<close>
  "upsert key x xs =
     (if \<exists>d \<in> set xs. key d = key x
      then map (\<lambda>d. if key d = key x then x else d) xs
      else xs @ [x])"

definition Conversation_save :: "conversation \<Rightarrow> world \<Rightarrow> world" where
  "Conversation_save c w =
     w\<lparr>conversations := upsert c_id c (conversations w),
       journal := journal w @ [SaveConversation c]\<rparr>"

definition Conversation_delete :: "conversation \<Rightarrow> world \<Rightarrow> world" where
  "Conversation_delete c w =
     w\<lparr>conversations := filter (\<lambda>d. c_id d \<noteq> c_id c) (conversations w),
       journal := journal w @ [DeleteConversation (c_id c)]\<rparr>"

definition Message_insert :: "message \<Rightarrow> world \<Rightarrow> message \<times> world" where
  "Message_insert m w =
     (let m' = m\<lparr>m_id := next_oid w\<rparr>
      in (m', w\<lparr>messages := messages w @ [m'],
                 next_oid := Suc (next_oid w),
                 journal := journal w @ [InsertMessage m']\<rparr>))"

definition Message_save :: "message \<Rightarrow> world \<Rightarrow> world" where
  "Message_save m w =
     w\<lparr>messages := upsert m_id m (messages w),
       journal := journal w @ [SaveMessage m]\<rparr>"

definition Message_delete_by_conversation :: "object_id \<Rightarrow> world \<Rightarrow> world" where
  \<comment> \<open>\<open>Message.find(Message.conversation_id == conv_id).delete()\<close>.\<close>
  "Message_delete_by_conversation i w =
     w\<lparr>messages := filter (\<lambda>m. conversation_id m \<noteq> i) (messages w),
       journal := journal w @ [DeleteMessages i]\<rparr>"

definition limit :: "int \<Rightarrow> 'a list \<Rightarrow> 'a list" where
  \<comment> \<open>The cursor's \<open>limit(n)\<close>. The number goes unchanged to the \<open>find\<close> command of the
      database driver, for which a limit of 0 is no limit (it is the default of the query
      builder) and a negative limit counts as its absolute value.\<close>
  "limit n xs = (if n = 0 then xs else take (nat \<bar>n\<bar>) xs)"

definition sort_newest_first :: "message list \<Rightarrow> message list" where
  \<comment> \<open>\<open>sort(-Message.timestamp)\<close>: descending by timestamp. Messages of equal timestamp
      keep their insertion order (the store leaves the order of ties open).\<close>
  "sort_newest_first ms = sort_key (\<lambda>m. - timestamp m) ms"

subsection \<open>Conversation methods\<close>

definition update_timestamp :: "conversation \<Rightarrow> world \<Rightarrow> conversation \<times> world" where
  "update_timestamp self w = (let (now, w1) = utcnow w in (self\<lparr>updated_at := now\<rparr>, w1))"

definition get_messages :: "conversation \<Rightarrow> int \<Rightarrow> world \<Rightarrow> message list" where
  "get_messages self n w =
     limit n (sort_newest_first (filter (\<lambda>m. conversation_id m = c_id self) (messages w)))"

definition new_message ::
  "object_id \<Rightarrow> string \<Rightarrow> MessageType \<Rightarrow> MessageStatus option \<Rightarrow> datetime \<Rightarrow> message" where
  \<comment> \<open>The constructor \<open>Message(...)\<close> with the field defaults of the class; the status defaults
      to \<open>COMPLETED\<close>. The id is set by \<open>insert()\<close>.\<close>
  "new_message cid text mtype st now =
     \<lparr>m_id = 0, conversation_id = cid, content = text, message_type = mtype,
      m_status = (case st of None \<Rightarrow> COMPLETED | Some s \<Rightarrow> s), timestamp = now,
      model_used = PyNone, confidence_score = PyNone, processing_time = PyNone,
      m_metadata = []\<rparr>"

definition add_message ::
  "conversation \<Rightarrow> string \<Rightarrow> MessageType \<Rightarrow> MessageStatus option \<Rightarrow> world
     \<Rightarrow> message \<times> conversation \<times> world" where
  \<comment> \<open>Returns the message, the mutated \<open>self\<close> and the store.\<close>
  "add_message self text mtype st w =
     (let (now, w1) = utcnow w;
          (msg, w2) = Message_insert (new_message (c_id self) text mtype st now) w1;
          self1 = self\<lparr>message_count := message_count self + 1\<rparr>;
          (self2, w3) = update_timestamp self1 w2;
          w4 = Conversation_save self2 w3
      in (msg, self2, w4))"

section \<open>app/ai/conversation\_manager.py: context assembly\<close>

record turn =
  role :: string
  turn_content :: string

definition turn_of :: "message \<Rightarrow> turn" where
  \<comment> \<open>The dictionary built in the loop body of \<open>_get_conversation_context\<close>.\<close>
  "turn_of m =
     \<lparr>role = (if message_type m = USER then ''user'' else ''assistant''),
      turn_content = content m\<rparr>"

fun context_loop :: "message list \<Rightarrow> turn list" where
  "context_loop [] = []"
| "context_loop (m # ms) =
     (if m_status m = COMPLETED then turn_of m # context_loop ms else context_loop ms)"

definition get_conversation_context :: "conversation \<Rightarrow> world \<Rightarrow> turn list" where
  "get_conversation_context conv w =
     context_loop (rev (get_messages conv (context_window conv) w))"

definition context_sources :: "conversation \<Rightarrow> world \<Rightarrow> message list" where
  \<comment> \<open>The messages that the entries of the context are derived from, in the order of
      the entries.\<close>
  "context_sources conv w =
     filter (\<lambda>m. m_status m = COMPLETED) (rev (get_messages conv (context_window conv) w))"

section \<open>app/config.py and app/ai/models.py\<close>

text \<open>The defaults of the \<open>Settings\<close> class that the model manager reads.\<close>

definition settings_default_model :: string where
  "settings_default_model = ''microsoft/DialoGPT-medium''"

definition settings_max_tokens :: int where
  "settings_max_tokens = 512"

definition settings_temperature :: real where
  "settings_temperature = 0.7"

text \<open>
  The language model is outside the program. \<open>conversation_pipeline\<close> is what a call of the
  pipeline does with the prompt, \<open>max_length\<close> and \<open>temperature\<close> it is given: it raises, or
  yields the last generated response. \<open>time_start\<close> and \<open>time_end\<close> are the two readings of
  \<open>time.time()\<close> around it.
\<close>

record ModelManager =
  conversation_pipeline :: "string \<Rightarrow> pyval \<Rightarrow> pyval \<Rightarrow> exn + string"
  device :: string
  time_start :: real
  time_end :: real

definition slice_from :: "int \<Rightarrow> 'a list \<Rightarrow> 'a list" where
  \<comment> \<open>The slice \<open>xs[i:]\<close>; a negative \<open>i\<close> counts from the end.\<close>
  "slice_from i xs =
     (if i < 0 then drop (nat (int (length xs) + i)) xs else drop (nat i) xs)"

definition format_turn :: "turn \<Rightarrow> string" where
  "format_turn t =
     (if role t = ''user'' then ''Human: '' @ turn_content t @ [CHR 0x0A]
      else if role t = ''assistant'' then ''Assistant: '' @ turn_content t @ [CHR 0x0A]
      else [])"

definition format_conversation :: "turn list \<Rightarrow> string" where
  \<comment> \<open>The slice bound is \<open>-settings.max_tokens//50\<close>, that is \<open>(-512)//50 = -11\<close>.\<close>
  "format_conversation conversation_history =
     concat (map format_turn (slice_from ((- settings_max_tokens) div 50) conversation_history))
       @ ''Assistant: ''"

definition is_space :: "char \<Rightarrow> bool" where
  \<comment> \<open>The ASCII characters for which \<open>str.isspace\<close> holds.\<close>
  "is_space c = ((of_char c :: nat) \<in> {9..13} \<union> {28..32})"

definition str_strip :: "string \<Rightarrow> string" where
  "str_strip s = rev (dropWhile is_space (rev (dropWhile is_space s)))"

fun split_from :: "string \<Rightarrow> string \<Rightarrow> string list" where
  "split_from word [] = (if word = [] then [] else [word])"
| "split_from word (c # cs) =
     (if is_space c then (if word = [] then split_from [] cs else word # split_from [] cs)
      else split_from (word @ [c]) cs)"

definition str_split :: "string \<Rightarrow> string list" where
  \<comment> \<open>\<open>text.split()\<close>: the maximal runs of non-whitespace characters.\<close>
  "str_split s = split_from [] s"

definition calculate_confidence :: "string \<Rightarrow> real" where
  "calculate_confidence text =
     (if text = [] \<or> length (str_strip text) < 5 then 0.1
      else let word_count = length (str_split text)
           in if word_count < 3 then 0.3
              else if word_count > 100 then 0.6
              else min 0.9 (0.4 + (real word_count / 100) * 0.5))"

definition generate_response ::
  "ModelManager \<Rightarrow> turn list \<Rightarrow> pyval \<Rightarrow> pyval \<Rightarrow> exn + (string \<times> pydict)" where
  "generate_response self conversation_history max_tokens temperature =
     (let max_tokens = py_or max_tokens (PyInt settings_max_tokens);
          temperature = py_or temperature (PyFloat settings_temperature);
          formatted_conversation = format_conversation conversation_history
      in case conversation_pipeline self formatted_conversation max_tokens temperature of
           Inl e \<Rightarrow> Inl e
         | Inr generated_text \<Rightarrow>
             (let processing_time = time_end self - time_start self;
                  confidence_score = calculate_confidence generated_text;
                  metadata =
                    [(''model_used'', PyStr settings_default_model),
                     (''processing_time'', PyFloat processing_time),
                     (''confidence_score'', PyFloat confidence_score),
                     (''max_tokens'', max_tokens),
                     (''temperature'', temperature),
                     (''device'', PyStr (device self))]
              in Inr (generated_text, metadata)))"

section \<open>app/ai/conversation\_manager.py: the turn\<close>

definition new_conversation ::
  "object_id \<Rightarrow> string option \<Rightarrow> pydict \<Rightarrow> datetime \<Rightarrow> datetime \<Rightarrow> conversation" where
  \<comment> \<open>The constructor \<open>Conversation(...)\<close> with the field defaults of the class. The id is
      set by \<open>insert()\<close>.\<close>
  "new_conversation uid ttl cfg created updated =
     \<lparr>c_id = 0, user_id = uid, title = ttl, c_status = ACTIVE, created_at = created,
      updated_at = updated, model_config = cfg, context_window = 10, message_count = 0,
      total_tokens_used = 0, c_metadata = []\<rparr>"

definition get_or_create_conversation ::
  "object_id option \<Rightarrow> object_id \<Rightarrow> world \<Rightarrow> conversation \<times> world" where
  \<comment> \<open>\<open>if conversation_id:\<close> tests for \<open>None\<close>; an object id is always truthy.\<close>
  "get_or_create_conversation conv_id uid w =
     (let found =
            (case conv_id of
               None \<Rightarrow> None
             | Some i \<Rightarrow>
                 (case Conversation_get i w of
                    None \<Rightarrow> None
                  | Some c \<Rightarrow> if user_id c = uid then Some c else None))
      in case found of
           Some c \<Rightarrow> (c, w)
         | None \<Rightarrow>
             (let (created, w1) = utcnow w;
                  (updated, w2) = utcnow w1
              in Conversation_insert
                   (new_conversation uid (Some ''New Conversation'')
                      [(''max_tokens'', PyInt 512), (''temperature'', PyFloat 0.7)]
                      created updated) w2))"

definition open_turn ::
  "object_id option \<Rightarrow> string \<Rightarrow> object_id \<Rightarrow> world
     \<Rightarrow> conversation \<times> message \<times> message \<times> world" where
  \<comment> \<open>The first three steps of \<open>process_user_message\<close>: the conversation is resolved, the
      user message is saved and the pending assistant message is created.\<close>
  "open_turn conv_id user_message uid w =
     (let (conv0, w1) = get_or_create_conversation conv_id uid w;
          (user_msg, conv1, w2) = add_message conv0 user_message USER None w1;
          (ai_msg, conv2, w3) = add_message conv1 [] ASSISTANT (Some PROCESSING) w2
      in (conv2, user_msg, ai_msg, w3))"

text \<open>
  The number added to \<open>total_tokens_used\<close>. The metadata of \<open>generate_response\<close> has no
  \<open>tokens_used\<close> entry, so the value is always the default 0 and the last case is never
  reached.
\<close>

fun as_int :: "pyval \<Rightarrow> int" where
  "as_int (PyInt n) = n"
| "as_int (PyBool b) = (if b then 1 else 0)"
| "as_int _ = 0"

record reply =
  r_conversation_id :: object_id
  user_message_id :: object_id
  ai_message_id :: object_id
  response :: string
  r_metadata :: pydict

definition process_user_message ::
  "ModelManager \<Rightarrow> object_id option \<Rightarrow> string \<Rightarrow> object_id \<Rightarrow> world
     \<Rightarrow> (exn + reply) \<times> world" where
  \<comment> \<open>\<open>Inl e\<close> is the exception re-raised by the handler. The handler runs only once
      \<open>ai_msg\<close> exists, since generation is the one step that can raise.\<close>
  "process_user_message model_manager conv_id user_message uid w =
     (let (conv, user_msg, ai_msg, w3) = open_turn conv_id user_message uid w;
          conversation_history = get_conversation_context conv w3
      in case generate_response model_manager conversation_history
                (dict_get (model_config conv) ''max_tokens'')
                (dict_get (model_config conv) ''temperature'') of
           Inr (response_text, metadata) \<Rightarrow>
             (let ai_msg1 = ai_msg
                    \<lparr>content := response_text,
                     m_status := COMPLETED,
                     model_used := dict_get metadata ''model_used'',
                     confidence_score := dict_get metadata ''confidence_score'',
                     processing_time := dict_get metadata ''processing_time'',
                     m_metadata := metadata\<rparr>;
                  w4 = Message_save ai_msg1 w3;
                  conv1 = conv
                    \<lparr>total_tokens_used := total_tokens_used conv
                        + as_int (dict_get_default metadata ''tokens_used'' (PyInt 0))\<rparr>;
                  w5 = Conversation_save conv1 w4
              in (Inr \<lparr>r_conversation_id = c_id conv1,
                       user_message_id = m_id user_msg,
                       ai_message_id = m_id ai_msg1,
                       response = response_text,
                       r_metadata = metadata\<rparr>, w5))
         | Inl e \<Rightarrow>
             (let ai_msg1 = ai_msg
                    \<lparr>m_status := FAILED, m_metadata := [(''error'', PyStr (str e))]\<rparr>;
                  w4 = Message_save ai_msg1 w3
              in (Inl e, w4)))"

definition update_conversation_title :: "object_id \<Rightarrow> string \<Rightarrow> world \<Rightarrow> bool \<times> world" where
  "update_conversation_title conv_id ttl w =
     (case Conversation_get conv_id w of
        Some c \<Rightarrow>
          (let (c1, w1) = update_timestamp (c\<lparr>title := Some ttl\<rparr>) w
           in (True, Conversation_save c1 w1))
      | None \<Rightarrow> (False, w))"

section \<open>app/api/routes: the conversation endpoints\<close>

text \<open>
  The endpoints are modelled from the point where the id string of the request has been
  parsed into an object id and the caller has been authenticated as \<open>uid\<close>.
\<close>

datatype http_error = HTTP_404_NOT_FOUND

definition archive_conversation ::
  "object_id \<Rightarrow> object_id \<Rightarrow> world \<Rightarrow> (http_error + string) \<times> world" where
  "archive_conversation conv_id uid w =
     (case Conversation_get conv_id w of
        None \<Rightarrow> (Inl HTTP_404_NOT_FOUND, w)
      | Some c \<Rightarrow>
          if user_id c \<noteq> uid then (Inl HTTP_404_NOT_FOUND, w)
          else (let (c1, w1) = update_timestamp (c\<lparr>c_status := ARCHIVED\<rparr>) w
                in (Inr ''Conversation archived successfully'', Conversation_save c1 w1)))"

definition restore_conversation ::
  "object_id \<Rightarrow> object_id \<Rightarrow> world \<Rightarrow> (http_error + string) \<times> world" where
  "restore_conversation conv_id uid w =
     (case Conversation_get conv_id w of
        None \<Rightarrow> (Inl HTTP_404_NOT_FOUND, w)
      | Some c \<Rightarrow>
          if user_id c \<noteq> uid then (Inl HTTP_404_NOT_FOUND, w)
          else (let (c1, w1) = update_timestamp (c\<lparr>c_status := ACTIVE\<rparr>) w
                in (Inr ''Conversation restored successfully'', Conversation_save c1 w1)))"

definition create_conversation ::
  "string option \<Rightarrow> pydict \<Rightarrow> object_id \<Rightarrow> world \<Rightarrow> conversation \<times> world" where
  \<comment> \<open>\<open>title=request.title or "New Conversation"\<close>, \<open>model_config=request.model_config or {}\<close>.\<close>
  "create_conversation req_title req_config uid w =
     (let ttl = (case req_title of
                   None \<Rightarrow> ''New Conversation''
                 | Some t \<Rightarrow> if t \<noteq> [] then t else ''New Conversation'');
          (created, w1) = utcnow w;
          (updated, w2) = utcnow w1
      in Conversation_insert (new_conversation uid (Some ttl) req_config created updated) w2)"

definition delete_conversation ::
  "object_id \<Rightarrow> object_id \<Rightarrow> world \<Rightarrow> (http_error + string) \<times> world" where
  "delete_conversation conv_id uid w =
     (case Conversation_get conv_id w of
        None \<Rightarrow> (Inl HTTP_404_NOT_FOUND, w)
      | Some c \<Rightarrow>
          if user_id c \<noteq> uid then (Inl HTTP_404_NOT_FOUND, w)
          else (Inr ''Conversation deleted successfully'',
                Conversation_delete c (Message_delete_by_conversation conv_id w)))"

definition update_conversation ::
  "object_id \<Rightarrow> string option \<Rightarrow> ConversationStatus option \<Rightarrow> pydict option \<Rightarrow> object_id
     \<Rightarrow> world \<Rightarrow> (http_error + string list) \<times> world" where
  \<comment> \<open>Returns the list \<open>updated_fields\<close>.\<close>
  "update_conversation conv_id upd_title upd_status upd_config uid w =
     (case Conversation_get conv_id w of
        None \<Rightarrow> (Inl HTTP_404_NOT_FOUND, w)
      | Some c \<Rightarrow>
          if user_id c \<noteq> uid then (Inl HTTP_404_NOT_FOUND, w)
          else
            (let (c1, f1) = (case upd_title of
                               None \<Rightarrow> (c, [])
                             | Some t \<Rightarrow> (c\<lparr>title := Some t\<rparr>, [''title'']));
                 (c2, f2) = (case upd_status of
                               None \<Rightarrow> (c1, f1)
                             | Some s \<Rightarrow> (c1\<lparr>c_status := s\<rparr>, f1 @ [''status'']));
                 (c3, f3) = (case upd_config of
                               None \<Rightarrow> (c2, f2)
                             | Some cfg \<Rightarrow>
                                 (c2\<lparr>model_config := dict_update (model_config c2) cfg\<rparr>,
                                  f2 @ [''model_config'']))
             in if f3 \<noteq> []
                then (let (c4, w1) = update_timestamp c3 w
                      in (Inr f3, Conversation_save c4 w1))
                else (Inr f3, w)))"

section \<open>The states the backend can reach\<close>

text \<open>
  The store starts empty, and the only writers of the two collections are the operations
  above, each run to its end before the next one starts.
\<close>

inductive reachable :: "world \<Rightarrow> bool" where
  start: "reachable \<lparr>conversations = [], messages = [], next_oid = n, clock = k, ticks = t,
                      journal = []\<rparr>"
| turn: "reachable w \<Longrightarrow> reachable (snd (process_user_message mm conv_id text uid w))"
| retitle: "reachable w \<Longrightarrow> reachable (snd (update_conversation_title conv_id ttl w))"
| create: "reachable w \<Longrightarrow> reachable (snd (create_conversation req_title req_config uid w))"
| delete: "reachable w \<Longrightarrow> reachable (snd (delete_conversation conv_id uid w))"
| update: "reachable w \<Longrightarrow>
           reachable (snd (update_conversation conv_id upd_title upd_status upd_config uid w))"
| archive: "reachable w \<Longrightarrow> reachable (snd (archive_conversation conv_id uid w))"
| restore: "reachable w \<Longrightarrow> reachable (snd (restore_conversation conv_id uid w))"

section \<open>Observations on the store\<close>

definition writes_during :: "world \<Rightarrow> world \<Rightarrow> store_write list" where
  \<comment> \<open>The writes sent to the store between the state \<open>w\<close> and the later state \<open>w'\<close>.\<close>
  "writes_during w w' = drop (length (journal w)) (journal w')"


definition counts_agree :: "world \<Rightarrow> bool" where
  \<comment> \<open>Every conversation's \<open>message_count\<close> is the number of its stored messages.\<close>
  "counts_agree w =
     (\<forall>c \<in> set (conversations w).
        message_count c =
          int (length (filter (\<lambda>m. conversation_id m = c_id c) (messages w))))"

definition ids_fresh :: "world \<Rightarrow> bool" where
  \<comment> \<open>Ids are unique in each collection, and every id in use was handed out before.\<close>
  "ids_fresh w =
     (distinct (map c_id (conversations w)) \<and> distinct (map m_id (messages w))
      \<and> (\<forall>c \<in> set (conversations w). c_id c < next_oid w)
      \<and> (\<forall>m \<in> set (messages w). m_id m < next_oid w \<and> conversation_id m < next_oid w))"

definition store_ok :: "world \<Rightarrow> bool" where
  "store_ok w = (counts_agree w \<and> ids_fresh w)"

section \<open>Example inputs\<close>

definition example_message ::
  "object_id \<Rightarrow> MessageType \<Rightarrow> MessageStatus \<Rightarrow> datetime \<Rightarrow> string \<Rightarrow> message" where
  "example_message i mtype st ts text =
     \<lparr>m_id = i, conversation_id = 0, content = text, message_type = mtype, m_status = st,
      timestamp = ts, model_used = PyNone, confidence_score = PyNone,
      processing_time = PyNone, m_metadata = []\<rparr>"

definition example_conversation :: "int \<Rightarrow> int \<Rightarrow> conversation" where
  \<comment> \<open>Conversation 0 of user 1, with the given context window and message count.\<close>
  "example_conversation window n =
     \<lparr>c_id = 0, user_id = 1, title = Some ''New Conversation'', c_status = ACTIVE,
      created_at = 5, updated_at = 5,
      model_config = [(''max_tokens'', PyInt 512), (''temperature'', PyFloat 0.7)],
      context_window = window, message_count = n, total_tokens_used = 0,
      c_metadata = []\<rparr>"

definition example_history :: "message list" where
  "example_history =
     [example_message 1 USER COMPLETED 10 ''hello'',
      example_message 2 ASSISTANT COMPLETED 11 ''hi'',
      example_message 3 SYSTEM COMPLETED 12 ''be brief'',
      example_message 4 USER COMPLETED 13 ''how are you'',
      example_message 5 ASSISTANT FAILED 14 []]"

definition history_world :: "int \<Rightarrow> world" where
  \<comment> \<open>A store holding conversation 0 with five messages.\<close>
  "history_world window =
     \<lparr>conversations = [example_conversation window 5], messages = example_history,
      next_oid = 6, clock = (\<lambda>n. 100 + int n), ticks = 0, journal = []\<rparr>"

definition quiet_world :: "conversation \<Rightarrow> world" where
  \<comment> \<open>A store holding one conversation and no message yet.\<close>
  "quiet_world c =
     \<lparr>conversations = [c], messages = [],
      next_oid = 1, clock = (\<lambda>n. 100 + int n), ticks = 0, journal = []\<rparr>"

definition empty_world :: world where
  "empty_world =
     \<lparr>conversations = [], messages = [],
      next_oid = 0, clock = (\<lambda>n. 100 + int n), ticks = 0, journal = []\<rparr>"

definition zero_override_conversation :: conversation where
  \<comment> \<open>Conversation 0 of user 1 with \<open>model_config = {"max_tokens": 0, "temperature": 0.0}\<close>.\<close>
  "zero_override_conversation =
     (example_conversation 10 0)
       \<lparr>model_config := [(''max_tokens'', PyInt 0), (''temperature'', PyFloat 0)]\<rparr>"

definition echo_model :: ModelManager where
  \<comment> \<open>A language model that answers with the prompt it was given.\<close>
  "echo_model =
     \<lparr>conversation_pipeline = (\<lambda>prompt max_length temperature. Inr prompt),
      device = ''cpu'', time_start = 0, time_end = 1\<rparr>"

definition failing_model :: ModelManager where
  \<comment> \<open>A language model whose every call raises.\<close>
  "failing_model =
     \<lparr>conversation_pipeline =
        (\<lambda>prompt max_length temperature. Inl (Exception ''out of memory'')),
      device = ''cpu'', time_start = 0, time_end = 1\<rparr>"

section \<open>Store operations\<close>

lemma find_snoc:
  "find P (xs @ [x]) =
     (case find P xs of Some y \<Rightarrow> Some y | None \<Rightarrow> if P x then Some x else None)"
  by (induction xs) auto

lemma find_upsert: "find (\<lambda>d. key d = key x) (upsert key x xs) = Some x"
proof (cases "\<exists>d \<in> set xs. key d = key x")
  case True
  have "find (\<lambda>d. key d = key x) (map (\<lambda>d. if key d = key x then x else d) ys) = Some x"
    if "\<exists>d \<in> set ys. key d = key x" for ys
    using that by (induction ys) auto
  with True show ?thesis by (simp add: upsert_def)
next
  case False
  then have "find (\<lambda>d. key d = key x) xs = None" by (simp add: find_None_iff)
  with False show ?thesis by (simp add: upsert_def find_snoc)
qed

lemma find_upsert_other:
  assumes "i \<noteq> key x"
  shows "find (\<lambda>d. key d = i) (upsert key x xs) = find (\<lambda>d. key d = i) xs"
proof -
  have a: "find (\<lambda>d. key d = i) (map (\<lambda>d. if key d = key x then x else d) ys)
      = find (\<lambda>d. key d = i) ys" for ys
    using assms by (induction ys) auto
  have b: "find (\<lambda>d. key d = i) (ys @ [x]) = find (\<lambda>d. key d = i) ys" for ys
    using assms by (induction ys) auto
  show ?thesis by (simp add: upsert_def a b)
qed

lemma set_upsert: "set (upsert key x xs) = {d \<in> set xs. key d \<noteq> key x} \<union> {x}"
  by (auto simp: upsert_def)

lemma map_key_upsert:
  "map key (upsert key x xs) =
     (if key x \<in> key ` set xs then map key xs else map key xs @ [key x])"
proof (cases "\<exists>d \<in> set xs. key d = key x")
  case True
  then obtain d where "d \<in> set xs" "key d = key x" by blast
  then have "key x \<in> key ` set xs" by (metis imageI)
  moreover have "map key (map (\<lambda>d. if key d = key x then x else d) xs) = map key xs"
    by (induction xs) auto
  ultimately show ?thesis using True by (simp add: upsert_def)
next
  case False
  then have "key x \<notin> key ` set xs" by force
  then show ?thesis using False by (simp add: upsert_def)
qed

lemma distinct_upsert: "distinct (map key xs) \<Longrightarrow> distinct (map key (upsert key x xs))"
  by (simp add: map_key_upsert)

lemma map_upsert_same:
  assumes "key x \<in> key ` set xs" and "\<forall>d \<in> set xs. key d = key x \<longrightarrow> f d = f x"
  shows "map f (upsert key x xs) = map f xs"
  using assms by (auto simp: upsert_def)

lemma count_by_map:
  "length (filter (\<lambda>m. f m = i) ms) = length (filter (\<lambda>j. j = i) (map f ms))"
  by (induction ms) simp_all

lemma distinct_key_unique:
  "distinct (map key xs) \<Longrightarrow> a \<in> set xs \<Longrightarrow> d \<in> set xs \<Longrightarrow> key d = key a \<Longrightarrow> d = a"
  by (meson distinct_map inj_onD)

lemma upsert_not_Nil: "upsert key x xs \<noteq> []"
  using set_upsert [of key x xs] by auto


lemma upsert_snoc_any:
  assumes "key x = key a"
  shows "upsert key x (xs @ [a]) = map (\<lambda>d. if key d = key x then x else d) xs @ [x]"
  using assms by (auto simp: upsert_def)

lemma Conversation_get_id: "Conversation_get i w = Some c \<Longrightarrow> c_id c = i"
  by (auto simp: Conversation_get_def dest: find_Some_iff [THEN iffD1])

lemma Conversation_get_mem: "Conversation_get i w = Some c \<Longrightarrow> c \<in> set (conversations w)"
  by (auto simp: Conversation_get_def find_Some_iff)

lemma Conversation_get_save:
  "Conversation_get (c_id c) (Conversation_save c w) = Some c"
  by (simp add: Conversation_get_def Conversation_save_def find_upsert)

lemma Conversation_get_save_other:
  "i \<noteq> c_id c \<Longrightarrow> Conversation_get i (Conversation_save c w) = Conversation_get i w"
  by (simp add: Conversation_get_def Conversation_save_def find_upsert_other)

section \<open>The steps of a turn\<close>

lemma add_message_eq:
  "add_message self text mtype st w =
     (let msg = (new_message (c_id self) text mtype st (clock w (ticks w)))\<lparr>m_id := next_oid w\<rparr>;
          self' = self\<lparr>message_count := message_count self + 1,
                       updated_at := clock w (Suc (ticks w))\<rparr>
      in (msg, self',
          w\<lparr>conversations := upsert c_id self' (conversations w),
            messages := messages w @ [msg],
            next_oid := Suc (next_oid w),
            ticks := Suc (Suc (ticks w)),
            journal := journal w @ [InsertMessage msg, SaveConversation self']\<rparr>))"
  by (simp add: add_message_def utcnow_def Message_insert_def update_timestamp_def
      Conversation_save_def Let_def)

lemma get_or_create_found:
  "Conversation_get i w = Some c \<Longrightarrow> user_id c = uid \<Longrightarrow>
   get_or_create_conversation (Some i) uid w = (c, w)"
  by (simp add: get_or_create_conversation_def)

lemma get_or_create_new:
  assumes "conv_id = None \<or>
           (\<exists>i. conv_id = Some i \<and> (\<forall>c. Conversation_get i w = Some c \<longrightarrow> user_id c \<noteq> uid))"
  shows "get_or_create_conversation conv_id uid w =
     (let c = (new_conversation uid (Some ''New Conversation'')
                 [(''max_tokens'', PyInt 512), (''temperature'', PyFloat 0.7)]
                 (clock w (ticks w)) (clock w (Suc (ticks w))))\<lparr>c_id := next_oid w\<rparr>
      in (c, w\<lparr>conversations := conversations w @ [c],
                next_oid := Suc (next_oid w),
                ticks := Suc (Suc (ticks w)),
                journal := journal w @ [InsertConversation c]\<rparr>))"
  using assms
  by (auto simp add: get_or_create_conversation_def utcnow_def Conversation_insert_def Let_def
      split: option.splits)

lemma get_or_create_cases:
  obtains (found) i c where "conv_id = Some i" "Conversation_get i w = Some c" "user_id c = uid"
  | (new) "conv_id = None \<or>
           (\<exists>i. conv_id = Some i \<and> (\<forall>c. Conversation_get i w = Some c \<longrightarrow> user_id c \<noteq> uid))"
  by (cases conv_id) auto

lemma open_turn_eq:
  "open_turn conv_id text uid w =
     (let (c0, w1) = get_or_create_conversation conv_id uid w;
          u = (new_message (c_id c0) text USER None (clock w1 (ticks w1)))
                \<lparr>m_id := next_oid w1\<rparr>;
          c1 = c0\<lparr>message_count := message_count c0 + 1,
                  updated_at := clock w1 (Suc (ticks w1))\<rparr>;
          a = (new_message (c_id c0) [] ASSISTANT (Some PROCESSING)
                 (clock w1 (Suc (Suc (ticks w1)))))\<lparr>m_id := Suc (next_oid w1)\<rparr>;
          c2 = c0\<lparr>message_count := message_count c0 + 2,
                  updated_at := clock w1 (Suc (Suc (Suc (ticks w1))))\<rparr>
      in (c2, u, a,
          w1\<lparr>conversations := upsert c_id c2 (upsert c_id c1 (conversations w1)),
             messages := messages w1 @ [u, a],
             next_oid := Suc (Suc (next_oid w1)),
             ticks := Suc (Suc (Suc (Suc (ticks w1)))),
             journal := journal w1 @ [InsertMessage u, SaveConversation c1,
                                      InsertMessage a, SaveConversation c2]\<rparr>))"
  by (simp add: open_turn_def add_message_eq Let_def add.commute split: prod.splits)

lemma get_or_create_frame:
  assumes "get_or_create_conversation conv_id uid w = (c0, w1)"
  shows "messages w1 = messages w \<and> clock w1 = clock w \<and> next_oid w \<le> next_oid w1
       \<and> (journal w1 = journal w \<or> journal w1 = journal w @ [InsertConversation c0])"
proof (cases rule: get_or_create_cases [of conv_id w uid])
  case (found i c)
  with assms show ?thesis by (simp add: get_or_create_found)
next
  case new
  from assms show ?thesis by (auto simp: get_or_create_new [OF new] Let_def)
qed

text \<open>What the first three steps leave behind, in terms of the resolved conversation.\<close>

lemma open_turn_parts:
  assumes g: "get_or_create_conversation conv_id uid w = (c0, w1)"
    and ot: "open_turn conv_id text uid w = (conv, u, a, w3)"
  shows "u = (new_message (c_id c0) text USER None (clock w1 (ticks w1)))\<lparr>m_id := next_oid w1\<rparr>"
    and "a = (new_message (c_id c0) [] ASSISTANT (Some PROCESSING)
                 (clock w1 (Suc (Suc (ticks w1)))))\<lparr>m_id := Suc (next_oid w1)\<rparr>"
    and "conv = c0\<lparr>message_count := message_count c0 + 2,
                  updated_at := clock w1 (Suc (Suc (Suc (ticks w1))))\<rparr>"
    and "messages w3 = messages w @ [u, a]"
    and "journal w3 = journal w1 @
           [InsertMessage u,
            SaveConversation (c0\<lparr>message_count := message_count c0 + 1,
                                 updated_at := clock w1 (Suc (ticks w1))\<rparr>),
            InsertMessage a, SaveConversation conv]"
    and "Conversation_get (c_id conv) w3 = Some conv"
    and "next_oid w3 = Suc (Suc (next_oid w1))"
    and "clock w3 = clock w"
proof -
  define c1 where "c1 = c0\<lparr>message_count := message_count c0 + 1,
                                 updated_at := clock w1 (Suc (ticks w1))\<rparr>"
  have eq: "u = (new_message (c_id c0) text USER None (clock w1 (ticks w1)))\<lparr>m_id := next_oid w1\<rparr>
    \<and> a = (new_message (c_id c0) [] ASSISTANT (Some PROCESSING)
                 (clock w1 (Suc (Suc (ticks w1)))))\<lparr>m_id := Suc (next_oid w1)\<rparr>
    \<and> conv = c0\<lparr>message_count := message_count c0 + 2,
                  updated_at := clock w1 (Suc (Suc (Suc (ticks w1))))\<rparr>
    \<and> w3 = w1\<lparr>conversations := upsert c_id conv (upsert c_id c1 (conversations w1)),
             messages := messages w1 @ [u, a],
             next_oid := Suc (Suc (next_oid w1)),
             ticks := Suc (Suc (Suc (Suc (ticks w1)))),
             journal := journal w1 @ [InsertMessage u, SaveConversation c1,
                                      InsertMessage a, SaveConversation conv]\<rparr>"
    using ot g by (auto simp: open_turn_eq Let_def c1_def)
  note f = get_or_create_frame [OF g]
  from eq show "u = (new_message (c_id c0) text USER None (clock w1 (ticks w1)))\<lparr>m_id := next_oid w1\<rparr>"
    by simp
  from eq show "a = (new_message (c_id c0) [] ASSISTANT (Some PROCESSING)
                 (clock w1 (Suc (Suc (ticks w1)))))\<lparr>m_id := Suc (next_oid w1)\<rparr>"
    by simp
  from eq show "conv = c0\<lparr>message_count := message_count c0 + 2,
                  updated_at := clock w1 (Suc (Suc (Suc (ticks w1))))\<rparr>"
    by simp
  have w3: "w3 = w1\<lparr>conversations := upsert c_id conv (upsert c_id c1 (conversations w1)),
             messages := messages w1 @ [u, a],
             next_oid := Suc (Suc (next_oid w1)),
             ticks := Suc (Suc (Suc (Suc (ticks w1)))),
             journal := journal w1 @ [InsertMessage u, SaveConversation c1,
                                      InsertMessage a, SaveConversation conv]\<rparr>"
    using eq by blast
  show "messages w3 = messages w @ [u, a]"
    using f by (simp add: w3)
  show "journal w3 = journal w1 @
           [InsertMessage u,
            SaveConversation (c0\<lparr>message_count := message_count c0 + 1,
                                 updated_at := clock w1 (Suc (ticks w1))\<rparr>),
            InsertMessage a, SaveConversation conv]"
    by (simp add: w3 c1_def)
  show "Conversation_get (c_id conv) w3 = Some conv"
    by (simp add: w3 Conversation_get_def find_upsert)
  show "next_oid w3 = Suc (Suc (next_oid w1))"
    by (simp add: w3)
  show "clock w3 = clock w"
    using f by (simp add: w3)
qed

lemma open_turn_ai_type:
  "open_turn conv_id text uid w = (conv, u, a, w3) \<Longrightarrow>
   message_type a = ASSISTANT \<and> m_status a = PROCESSING \<and> content a = []"
  by (auto simp: open_turn_eq new_message_def Let_def split: prod.splits)

lemma open_turn_user_type:
  "open_turn conv_id text uid w = (conv, u, a, w3) \<Longrightarrow>
   message_type u = USER \<and> m_status u = COMPLETED \<and> content u = text"
  by (auto simp: open_turn_eq new_message_def Let_def split: prod.splits)

lemma generate_response_cases:
  "generate_response mm h mt t =
     (case conversation_pipeline mm (format_conversation h)
             (py_or mt (PyInt settings_max_tokens)) (py_or t (PyFloat settings_temperature)) of
        Inl e \<Rightarrow> Inl e
      | Inr text \<Rightarrow>
          Inr (text,
               [(''model_used'', PyStr settings_default_model),
                (''processing_time'', PyFloat (time_end mm - time_start mm)),
                (''confidence_score'', PyFloat (calculate_confidence text)),
                (''max_tokens'', py_or mt (PyInt settings_max_tokens)),
                (''temperature'', py_or t (PyFloat settings_temperature)),
                (''device'', PyStr (device mm))]))"
  by (simp add: generate_response_def Let_def split: sum.splits)

lemma generate_response_confidence:
  "generate_response mm h mt t = Inr (text, md) \<Longrightarrow>
   dict_get md ''confidence_score'' = PyFloat (calculate_confidence text)"
  by (auto simp: generate_response_cases dict_get_def split: sum.splits)

lemma generate_response_tokens_used:
  "generate_response mm h mt t = Inr (text, md) \<Longrightarrow>
   dict_get_default md ''tokens_used'' (PyInt 0) = PyInt 0"
  by (auto simp: generate_response_cases dict_get_default_def split: sum.splits)

lemma process_user_message_success:
  assumes "open_turn conv_id text uid w = (conv, u, a, w3)"
    and "generate_response mm (get_conversation_context conv w3)
           (dict_get (model_config conv) ''max_tokens'')
           (dict_get (model_config conv) ''temperature'') = Inr (resp, md)"
  shows "process_user_message mm conv_id text uid w =
     (Inr \<lparr>r_conversation_id = c_id conv, user_message_id = m_id u, ai_message_id = m_id a,
           response = resp, r_metadata = md\<rparr>,
      Conversation_save conv
        (Message_save
           (a\<lparr>content := resp, m_status := COMPLETED,
              model_used := dict_get md ''model_used'',
              confidence_score := dict_get md ''confidence_score'',
              processing_time := dict_get md ''processing_time'',
              m_metadata := md\<rparr>) w3))"
  using assms generate_response_tokens_used [OF assms(2)]
  by (simp add: process_user_message_def Let_def)

lemma process_user_message_failure:
  assumes "open_turn conv_id text uid w = (conv, u, a, w3)"
    and "generate_response mm (get_conversation_context conv w3)
           (dict_get (model_config conv) ''max_tokens'')
           (dict_get (model_config conv) ''temperature'') = Inl e"
  shows "process_user_message mm conv_id text uid w =
     (Inl e,
      Message_save (a\<lparr>m_status := FAILED, m_metadata := [(''error'', PyStr (str e))]\<rparr>) w3)"
  using assms by (simp add: process_user_message_def Let_def)

lemma generate_response_echo:
  "generate_response echo_model h mt t =
     Inr (format_conversation h,
          [(''model_used'', PyStr settings_default_model),
           (''processing_time'', PyFloat 1),
           (''confidence_score'', PyFloat (calculate_confidence (format_conversation h))),
           (''max_tokens'', py_or mt (PyInt settings_max_tokens)),
           (''temperature'', py_or t (PyFloat settings_temperature)),
           (''device'', PyStr ''cpu'')])"
  by (simp add: generate_response_cases echo_model_def)

lemma generate_response_failing:
  "generate_response failing_model h mt t = Inl (Exception ''out of memory'')"
  by (simp add: generate_response_cases failing_model_def)

lemma process_user_message_echo:
  "\<exists>r. process_user_message echo_model conv_id text uid w
         = (Inr r, snd (process_user_message echo_model conv_id text uid w))"
proof -
  obtain conv u a w3 where ot: "open_turn conv_id text uid w = (conv, u, a, w3)"
    by (metis prod_cases4)
  from process_user_message_success [OF ot generate_response_echo] show ?thesis by simp
qed

lemma Message_find_save:
  "find (\<lambda>m. m_id m = m_id x) (messages (Conversation_save c (Message_save x w))) = Some x"
  by (simp add: Conversation_save_def Message_save_def find_upsert)

lemma writes_during_append: "journal w' = journal w @ js \<Longrightarrow> writes_during w w' = js"
  by (simp add: writes_during_def)

section \<open>Archive and restore\<close>

lemma archive_conversation_owned:
  assumes "Conversation_get i w = Some c" "user_id c = uid"
  shows "archive_conversation i uid w =
     (Inr ''Conversation archived successfully'',
      Conversation_save (c\<lparr>c_status := ARCHIVED, updated_at := clock w (ticks w)\<rparr>)
        (w\<lparr>ticks := Suc (ticks w)\<rparr>))"
  using assms by (simp add: archive_conversation_def update_timestamp_def utcnow_def)

lemma restore_conversation_owned:
  assumes "Conversation_get i w = Some c" "user_id c = uid"
  shows "restore_conversation i uid w =
     (Inr ''Conversation restored successfully'',
      Conversation_save (c\<lparr>c_status := ACTIVE, updated_at := clock w (ticks w)\<rparr>)
        (w\<lparr>ticks := Suc (ticks w)\<rparr>))"
  using assms by (simp add: restore_conversation_def update_timestamp_def utcnow_def)

section \<open>The example inputs\<close>

lemma example_conversation_fields:
  "c_id (example_conversation W n) = 0" "user_id (example_conversation W n) = 1"
  "context_window (example_conversation W n) = W"
  "message_count (example_conversation W n) = n"
  by (simp_all add: example_conversation_def)

lemma Conversation_get_quiet_world:
  "Conversation_get i (quiet_world c) = (if c_id c = i then Some c else None)"
  by (simp add: Conversation_get_def quiet_world_def)

lemma Conversation_get_history_world:
  "Conversation_get 0 (history_world W) = Some (example_conversation W 5)"
  by (simp add: Conversation_get_def history_world_def example_conversation_def)

lemma reachable_empty_world: "reachable empty_world"
  unfolding empty_world_def by (rule reachable.start)

section \<open>Context assembly\<close>









lemma context_loop_map_filter:
  "context_loop ms = map turn_of (filter (\<lambda>m. m_status m = COMPLETED) ms)"
  by (induction ms) simp_all

lemma context_is_map_of_sources:
  "get_conversation_context conv w = map turn_of (context_sources conv w)"
  by (simp add: get_conversation_context_def context_sources_def context_loop_map_filter)













section \<open>The store invariant\<close>

lemma store_ok_save_conversation:
  assumes ok: "store_ok w" and mem: "c \<in> set (conversations w)"
    and id: "c_id c' = c_id c" and cnt: "message_count c' = message_count c"
  shows "store_ok (Conversation_save c' w)"
proof -
  have "counts_agree (Conversation_save c' w)"
    using ok mem id cnt
    by (auto simp: store_ok_def counts_agree_def Conversation_save_def set_upsert)
  moreover have "ids_fresh (Conversation_save c' w)"
    using ok mem id
    by (auto simp: store_ok_def ids_fresh_def Conversation_save_def set_upsert distinct_upsert)
  ultimately show ?thesis by (simp add: store_ok_def)
qed

lemma store_ok_save_message:
  assumes ok: "store_ok w" and mem: "a \<in> set (messages w)"
    and id: "m_id a' = m_id a" and cid: "conversation_id a' = conversation_id a"
  shows "store_ok (Message_save a' w)"
proof -
  have d: "distinct (map m_id (messages w))"
    using ok by (simp add: store_ok_def ids_fresh_def)
  have same: "\<forall>d \<in> set (messages w). m_id d = m_id a' \<longrightarrow> conversation_id d = conversation_id a'"
    using distinct_key_unique [OF d mem] id cid by metis
  have ex: "m_id a' \<in> m_id ` set (messages w)"
    using mem id by (metis imageI)
  have mc: "map conversation_id (upsert m_id a' (messages w)) = map conversation_id (messages w)"
    using ex same by (rule map_upsert_same)
  have "counts_agree (Message_save a' w)"
    using ok
    by (simp add: store_ok_def counts_agree_def Message_save_def
        count_by_map [where f = conversation_id] mc)
  moreover have "ids_fresh (Message_save a' w)"
    using ok mem id cid
    by (auto simp: store_ok_def ids_fresh_def Message_save_def set_upsert distinct_upsert)
  ultimately show ?thesis by (simp add: store_ok_def)
qed

lemma store_ok_add_message:
  assumes ok: "store_ok w" and mem: "self \<in> set (conversations w)"
    and am: "add_message self text mtype st w = (m, self', w')"
  shows "store_ok w' \<and> self' \<in> set (conversations w') \<and> m \<in> set (messages w')
       \<and> conversation_id m = c_id self \<and> c_id self' = c_id self"
proof -
  define msg where "msg = (new_message (c_id self) text mtype st (clock w (ticks w)))\<lparr>m_id := next_oid w\<rparr>"
  define s' where "s' = self\<lparr>message_count := message_count self + 1,
                       updated_at := clock w (Suc (ticks w))\<rparr>"
  have m: "m = msg" and self': "self' = s'"
    and w': "w' = w\<lparr>conversations := upsert c_id s' (conversations w),
            messages := messages w @ [msg],
            next_oid := Suc (next_oid w),
            ticks := Suc (Suc (ticks w)),
            journal := journal w @ [InsertMessage msg, SaveConversation s']\<rparr>"
    using am by (auto simp: add_message_eq Let_def msg_def s'_def)
  have mc: "conversation_id msg = c_id self" "m_id msg = next_oid w"
    by (simp_all add: msg_def new_message_def)
  have sid: "c_id s' = c_id self" "message_count s' = message_count self + 1"
    by (simp_all add: s'_def)
  have ca: "counts_agree w'"
    using ok mem mc sid
    by (auto simp: store_ok_def counts_agree_def w' set_upsert)
  have fr: "ids_fresh w'"
    using ok mem mc sid
    by (auto simp: store_ok_def ids_fresh_def w' set_upsert distinct_upsert less_Suc_eq)
  show ?thesis
    using ca fr mc sid by (auto simp: store_ok_def m self' w' set_upsert)
qed

lemma store_ok_insert_conversation:
  assumes ok: "store_ok w" and cnt: "message_count c = 0"
  shows "store_ok (snd (Conversation_insert c w))
       \<and> fst (Conversation_insert c w) \<in> set (conversations (snd (Conversation_insert c w)))"
proof -
  have none: "filter (\<lambda>m. conversation_id m = next_oid w) (messages w) = []"
    using ok by (auto simp: store_ok_def ids_fresh_def filter_empty_conv)
  have "counts_agree (snd (Conversation_insert c w))"
    using ok cnt none
    by (auto simp: store_ok_def counts_agree_def Conversation_insert_def Let_def)
  moreover have "ids_fresh (snd (Conversation_insert c w))"
    using ok
    by (auto simp: store_ok_def ids_fresh_def Conversation_insert_def Let_def less_Suc_eq)
  ultimately show ?thesis
    by (simp add: store_ok_def Conversation_insert_def Let_def)
qed

lemma store_ok_ticks: "store_ok (w\<lparr>ticks := t\<rparr>) = store_ok w"
  by (simp add: store_ok_def counts_agree_def ids_fresh_def)

lemma store_ok_get_or_create:
  assumes ok: "store_ok w" and g: "get_or_create_conversation conv_id uid w = (c0, w1)"
  shows "store_ok w1 \<and> c0 \<in> set (conversations w1)"
proof (cases rule: get_or_create_cases [of conv_id w uid])
  case (found i c)
  then have "get_or_create_conversation conv_id uid w = (c, w)"
    by (simp add: get_or_create_found)
  with g ok found show ?thesis by (auto dest: Conversation_get_mem)
next
  case new
  define c where "c = new_conversation uid (Some ''New Conversation'')
                 [(''max_tokens'', PyInt 512), (''temperature'', PyFloat 0.7)]
                 (clock w (ticks w)) (clock w (Suc (ticks w)))"
  have eq: "get_or_create_conversation conv_id uid w
      = Conversation_insert c (w\<lparr>ticks := Suc (Suc (ticks w))\<rparr>)"
    by (simp add: get_or_create_new [OF new] Conversation_insert_def Let_def c_def)
  have "message_count c = 0" by (simp add: c_def new_conversation_def)
  from store_ok_insert_conversation [OF _ this, of "w\<lparr>ticks := Suc (Suc (ticks w))\<rparr>"] ok g
  show ?thesis by (simp add: eq store_ok_ticks)
qed

lemma store_ok_open_turn:
  assumes ok: "store_ok w" and ot: "open_turn conv_id text uid w = (conv, u, a, w3)"
  shows "store_ok w3 \<and> conv \<in> set (conversations w3) \<and> a \<in> set (messages w3)
       \<and> u \<in> set (messages w3)"
proof -
  obtain c0 w1 where g: "get_or_create_conversation conv_id uid w = (c0, w1)"
    by (cases "get_or_create_conversation conv_id uid w")
  obtain um c1 w2 where a1: "add_message c0 text USER None w1 = (um, c1, w2)"
    by (metis prod_cases3)
  obtain am c2 w3' where a2: "add_message c1 [] ASSISTANT (Some PROCESSING) w2 = (am, c2, w3')"
    by (metis prod_cases3)
  from ot g a1 a2 have eq: "conv = c2" "u = um" "a = am" "w3 = w3'"
    by (simp_all add: open_turn_def)
  from store_ok_get_or_create [OF ok g] have 1: "store_ok w1" "c0 \<in> set (conversations w1)"
    by simp_all
  from store_ok_add_message [OF 1 a1] have 2: "store_ok w2" "c1 \<in> set (conversations w2)"
    "um \<in> set (messages w2)"
    by simp_all
  from store_ok_add_message [OF 2(1,2) a2] have 3: "store_ok w3'" "c2 \<in> set (conversations w3')"
    "am \<in> set (messages w3')"
    by simp_all
  have "messages w3' = messages w2 @ [am]"
    using a2 by (auto simp: add_message_eq Let_def)
  with 2(3) have "um \<in> set (messages w3')" by simp
  with 3 show ?thesis by (simp add: eq)
qed

lemma store_ok_process_user_message:
  assumes ok: "store_ok w"
  shows "store_ok (snd (process_user_message mm conv_id text uid w))"
proof -
  obtain conv u a w3 where ot: "open_turn conv_id text uid w = (conv, u, a, w3)"
    by (metis prod_cases4)
  from store_ok_open_turn [OF ok ot]
  have 3: "store_ok w3" "conv \<in> set (conversations w3)" "a \<in> set (messages w3)"
    by simp_all
  let ?g = "generate_response mm (get_conversation_context conv w3)
           (dict_get (model_config conv) ''max_tokens'')
           (dict_get (model_config conv) ''temperature'')"
  show ?thesis
  proof (cases ?g)
    case (Inl e)
    have "store_ok (Message_save (a\<lparr>m_status := FAILED, m_metadata := [(''error'', PyStr (str e))]\<rparr>) w3)"
      by (rule store_ok_save_message [OF 3(1) 3(3)]) simp_all
    then show ?thesis by (simp add: process_user_message_failure [OF ot Inl])
  next
    case (Inr p)
    obtain resp md where p: "p = (resp, md)" by (cases p)
    define a1 where "a1 = a\<lparr>content := resp, m_status := COMPLETED,
              model_used := dict_get md ''model_used'',
              confidence_score := dict_get md ''confidence_score'',
              processing_time := dict_get md ''processing_time'',
              m_metadata := md\<rparr>"
    from Inr p have g: "?g = Inr (resp, md)" by simp
    have 4: "store_ok (Message_save a1 w3)"
      by (rule store_ok_save_message [OF 3(1) 3(3)]) (simp_all add: a1_def)
    have "conv \<in> set (conversations (Message_save a1 w3))"
      using 3(2) by (simp add: Message_save_def)
    then have "store_ok (Conversation_save conv (Message_save a1 w3))"
      by (rule store_ok_save_conversation [OF 4]) simp_all
    then show ?thesis by (simp add: process_user_message_success [OF ot g] a1_def)
  qed
qed

lemma store_ok_touch_and_save:
  assumes ok: "store_ok w" and g: "Conversation_get i w = Some c"
    and id: "c_id c' = c_id c" and cnt: "message_count c' = message_count c"
  shows "store_ok (Conversation_save (c'\<lparr>updated_at := t\<rparr>) (w\<lparr>ticks := k\<rparr>))"
  by (rule store_ok_save_conversation [where c = c])
     (use ok g id cnt in \<open>simp_all add: store_ok_ticks Conversation_get_mem\<close>)

lemma store_ok_update_conversation_title:
  assumes ok: "store_ok w"
  shows "store_ok (snd (update_conversation_title i ttl w))"
proof (cases "Conversation_get i w")
  case None
  then show ?thesis using ok by (simp add: update_conversation_title_def)
next
  case (Some c)
  from store_ok_touch_and_save [OF ok Some, of "c\<lparr>title := Some ttl\<rparr>"] Some
  show ?thesis
    by (simp add: update_conversation_title_def update_timestamp_def utcnow_def)
qed

lemma store_ok_archive:
  assumes ok: "store_ok w"
  shows "store_ok (snd (archive_conversation i uid w))"
proof (cases "Conversation_get i w")
  case None
  then show ?thesis using ok by (simp add: archive_conversation_def)
next
  case (Some c)
  from store_ok_touch_and_save [OF ok Some, of "c\<lparr>c_status := ARCHIVED\<rparr>"] Some ok
  show ?thesis
    by (simp add: archive_conversation_def update_timestamp_def utcnow_def)
qed

lemma store_ok_restore:
  assumes ok: "store_ok w"
  shows "store_ok (snd (restore_conversation i uid w))"
proof (cases "Conversation_get i w")
  case None
  then show ?thesis using ok by (simp add: restore_conversation_def)
next
  case (Some c)
  from store_ok_touch_and_save [OF ok Some, of "c\<lparr>c_status := ACTIVE\<rparr>"] Some ok
  show ?thesis
    by (simp add: restore_conversation_def update_timestamp_def utcnow_def)
qed

lemma store_ok_update: 
  assumes ok: "store_ok w"
  shows "store_ok (snd (update_conversation i ut us uc uid w))"
proof (cases "Conversation_get i w")
  case None
  then show ?thesis using ok by (simp add: update_conversation_def)
next
  case (Some c)
  show ?thesis
  proof (cases "user_id c \<noteq> uid")
    case True
    then show ?thesis using ok Some by (simp add: update_conversation_def)
  next
    case False
    obtain c1 f1 where 1: "(case ut of None \<Rightarrow> (c, []) | Some t \<Rightarrow> (c\<lparr>title := Some t\<rparr>, [''title''])) = (c1, f1)"
      by (metis surj_pair)
    obtain c2 f2 where 2: "(case us of None \<Rightarrow> (c1, f1) | Some s \<Rightarrow> (c1\<lparr>c_status := s\<rparr>, f1 @ [''status''])) = (c2, f2)"
      by (metis surj_pair)
    obtain c3 f3 where 3: "(case uc of None \<Rightarrow> (c2, f2) | Some cfg \<Rightarrow>
          (c2\<lparr>model_config := dict_update (model_config c2) cfg\<rparr>, f2 @ [''model_config''])) = (c3, f3)"
      by (metis surj_pair)
    have k1: "c_id c1 = c_id c \<and> message_count c1 = message_count c"
      using 1 by (auto split: option.splits)
    have k2: "c_id c2 = c_id c \<and> message_count c2 = message_count c"
      using 2 k1 by (auto split: option.splits)
    have k3: "c_id c3 = c_id c" "message_count c3 = message_count c"
      using 3 k2 by (auto split: option.splits)
    have eq: "update_conversation i ut us uc uid w =
        (if f3 \<noteq> []
         then (Inr f3, Conversation_save (c3\<lparr>updated_at := clock w (ticks w)\<rparr>)
                         (w\<lparr>ticks := Suc (ticks w)\<rparr>))
         else (Inr f3, w))"
      using Some False 1 2 3
      by (simp add: update_conversation_def update_timestamp_def utcnow_def)
    show ?thesis
      using ok store_ok_touch_and_save [OF ok Some k3]
      by (simp add: eq)
  qed
qed

lemma store_ok_create: 
  assumes ok: "store_ok w"
  shows "store_ok (snd (create_conversation rt rc uid w))"
proof -
  have "store_ok (snd (Conversation_insert (new_conversation uid t rc a b) (w\<lparr>ticks := Suc (Suc (ticks w))\<rparr>)))"
    for t a b
    using store_ok_insert_conversation [of "w\<lparr>ticks := Suc (Suc (ticks w))\<rparr>"
        "new_conversation uid t rc a b"] ok
    by (simp add: store_ok_ticks new_conversation_def)
  then show ?thesis
    by (simp add: create_conversation_def utcnow_def Let_def)
qed

lemma store_ok_delete:
  assumes ok: "store_ok w"
  shows "store_ok (snd (delete_conversation i uid w))"
proof (cases "Conversation_get i w")
  case None
  then show ?thesis using ok by (simp add: delete_conversation_def)
next
  case (Some c)
  have id: "c_id c = i" using Some by (rule Conversation_get_id)
  have "store_ok (Conversation_delete c (Message_delete_by_conversation i w))"
    using ok id
    by (auto simp: store_ok_def counts_agree_def ids_fresh_def Conversation_delete_def
        Message_delete_by_conversation_def distinct_map_filter
        intro!: arg_cong [where f = length] filter_cong)
  then show ?thesis using ok Some by (simp add: delete_conversation_def)
qed

lemma reachable_store_ok: "reachable w \<Longrightarrow> store_ok w"
proof (induction rule: reachable.induct)
  case (start n k t)
  show ?case by (simp add: store_ok_def counts_agree_def ids_fresh_def)
qed (simp_all add: store_ok_process_user_message store_ok_update_conversation_title
      store_ok_create store_ok_delete store_ok_update store_ok_archive store_ok_restore)



section \<open>Archive followed by restore\<close>

text \<open>
  Claim C7, as amended. For a conversation owned by the caller, archive followed by restore
  both succeed and leave the conversation with status \<open>ACTIVE\<close>, with \<open>updated_at\<close> set to
  the clock reading taken by the restore, and with every other field as it was before the
  archive; the stored messages are unchanged.
\<close>

theorem archive_then_restore:
  assumes "Conversation_get i w = Some c" and "user_id c = uid"
  shows "fst (archive_conversation i uid w) = Inr ''Conversation archived successfully''
       \<and> fst (restore_conversation i uid (snd (archive_conversation i uid w)))
            = Inr ''Conversation restored successfully''
       \<and> Conversation_get i (snd (restore_conversation i uid (snd (archive_conversation i uid w))))
            = Some (c\<lparr>c_status := ACTIVE, updated_at := clock w (Suc (ticks w))\<rparr>)
       \<and> messages (snd (restore_conversation i uid (snd (archive_conversation i uid w))))
            = messages w"
proof -
  define c1 where "c1 = c\<lparr>c_status := ARCHIVED, updated_at := clock w (ticks w)\<rparr>"
  define w1 where "w1 = Conversation_save c1 (w\<lparr>ticks := Suc (ticks w)\<rparr>)"
  define c2 where "c2 = c1\<lparr>c_status := ACTIVE, updated_at := clock w1 (ticks w1)\<rparr>"
  have id: "c_id c = i" using assms(1) by (rule Conversation_get_id)
  have a: "archive_conversation i uid w = (Inr ''Conversation archived successfully'', w1)"
    unfolding w1_def c1_def using assms by (rule archive_conversation_owned)
  have "Conversation_get (c_id c1) w1 = Some c1"
    unfolding w1_def by (rule Conversation_get_save)
  then have g1: "Conversation_get i w1 = Some c1"
    using id by (simp add: c1_def)
  have u1: "user_id c1 = uid" using assms(2) by (simp add: c1_def)
  have r: "restore_conversation i uid w1 =
      (Inr ''Conversation restored successfully'',
       Conversation_save c2 (w1\<lparr>ticks := Suc (ticks w1)\<rparr>))"
    unfolding c2_def using g1 u1 by (rule restore_conversation_owned)
  have t: "clock w1 (ticks w1) = clock w (Suc (ticks w))"
    by (simp add: w1_def Conversation_save_def)
  have c2: "c2 = c\<lparr>c_status := ACTIVE, updated_at := clock w (Suc (ticks w))\<rparr>"
    by (simp add: c2_def c1_def t)
  have "Conversation_get (c_id c2) (Conversation_save c2 (w1\<lparr>ticks := Suc (ticks w1)\<rparr>)) = Some c2"
    by (rule Conversation_get_save)
  moreover have "c_id c2 = i" using id by (simp add: c2)
  ultimately have g2: "Conversation_get i (snd (restore_conversation i uid w1)) = Some c2"
    by (simp add: r)
  have "messages w1 = messages w"
    by (simp add: w1_def Conversation_save_def)
  then have m: "messages (snd (restore_conversation i uid w1)) = messages w"
    by (simp add: r Conversation_save_def)
  show ?thesis using g2 m by (simp add: a r c2)
qed

theorem archive_then_restore_witness:
  "Conversation_get 0 (history_world 10) = Some (example_conversation 10 5)
   \<and> user_id (example_conversation 10 5) = 1
   \<and> Conversation_get 0
        (snd (restore_conversation 0 1 (snd (archive_conversation 0 1 (history_world 10)))))
      = Some ((example_conversation 10 5)\<lparr>c_status := ACTIVE, updated_at := 101\<rparr>)"
proof -
  have g: "Conversation_get 0 (history_world 10) = Some (example_conversation 10 5)"
    by (rule Conversation_get_history_world)
  have u: "user_id (example_conversation 10 5) = 1"
    by (simp add: example_conversation_def)
  have k: "clock (history_world 10) (Suc (ticks (history_world 10))) = 101"
    by (simp add: history_world_def)
  show ?thesis using g u archive_then_restore [OF g u] by (simp add: k)
qed

text \<open>
  Claim C7 as stated fails: each of the two operations calls \<open>update_timestamp\<close>, so
  \<open>updated_at\<close> does not keep its value.
\<close>

theorem archive_then_restore_counterexample:
  "Conversation_get 0
     (snd (restore_conversation 0 1 (snd (archive_conversation 0 1 (history_world 10)))))
   \<noteq> Some ((example_conversation 10 5)\<lparr>c_status := ACTIVE\<rparr>)"
proof -
  define c1 where "c1 = (example_conversation 10 5)\<lparr>c_status := ARCHIVED, updated_at := 100\<rparr>"
  define w1 where "w1 = Conversation_save c1 ((history_world 10)\<lparr>ticks := Suc 0\<rparr>)"
  define c2 where "c2 = c1\<lparr>c_status := ACTIVE, updated_at := 101\<rparr>"
  have g: "Conversation_get 0 (history_world 10) = Some (example_conversation 10 5)"
    by (rule Conversation_get_history_world)
  have u: "user_id (example_conversation 10 5) = 1"
    by (simp add: example_conversation_fields)
  have a: "archive_conversation 0 1 (history_world 10)
      = (Inr ''Conversation archived successfully'', w1)"
    using archive_conversation_owned [OF g u] by (simp add: w1_def c1_def history_world_def)
  have "Conversation_get (c_id c1) w1 = Some c1"
    unfolding w1_def by (rule Conversation_get_save)
  then have g1: "Conversation_get 0 w1 = Some c1"
    by (simp add: c1_def example_conversation_fields)
  have u1: "user_id c1 = 1"
    by (simp add: c1_def example_conversation_fields)
  have k: "clock w1 (Suc 0) = 101" "ticks w1 = Suc 0"
    by (simp_all add: w1_def Conversation_save_def history_world_def)
  have r: "restore_conversation 0 1 w1
      = (Inr ''Conversation restored successfully'',
         Conversation_save c2 (w1\<lparr>ticks := Suc (Suc 0)\<rparr>))"
    using restore_conversation_owned [OF g1 u1] by (simp add: c2_def k)
  have "Conversation_get (c_id c2) (Conversation_save c2 (w1\<lparr>ticks := Suc (Suc 0)\<rparr>)) = Some c2"
    by (rule Conversation_get_save)
  then have "Conversation_get 0 (snd (restore_conversation 0 1 w1)) = Some c2"
    using r by (simp add: c2_def c1_def example_conversation_fields)
  moreover have "updated_at c2 = 101" "updated_at ((example_conversation 10 5)\<lparr>c_status := ACTIVE\<rparr>) = 5"
    by (simp_all add: c2_def example_conversation_def)
  ultimately show ?thesis
    using a by auto
qed

section \<open>Generation parameters and confidence\<close>

lemma py_or_falsy: "py_or (PyInt 0) d = d" "py_or (PyFloat 0) d = d" "py_or PyNone d = d"
  by (simp_all add: py_or_def)

lemma py_or_truthy: "truthy v \<Longrightarrow> py_or v d = v"
  by (simp add: py_or_def)

text \<open>
  Claim C9 at the overrides 0 and 0.0. \<open>generate_response\<close> selects its parameters with
  \<open>max_tokens or settings.max_tokens\<close> and \<open>temperature or settings.temperature\<close>, and 0
  and 0.0 are falsy: the call behaves as if no override had been given, and the metadata
  of the answer records 512 and 0.7.
\<close>

theorem zero_overrides_use_defaults:
  "generate_response mm h (PyInt 0) (PyFloat 0) = generate_response mm h PyNone PyNone
   \<and> generate_response echo_model h (PyInt 0) (PyFloat 0) =
       Inr (format_conversation h,
            [(''model_used'', PyStr ''microsoft/DialoGPT-medium''),
             (''processing_time'', PyFloat 1),
             (''confidence_score'', PyFloat (calculate_confidence (format_conversation h))),
             (''max_tokens'', PyInt 512),
             (''temperature'', PyFloat 0.7),
             (''device'', PyStr ''cpu'')])
   \<and> map_sum str
        (\<lambda>r. (dict_get (r_metadata r) ''max_tokens'', dict_get (r_metadata r) ''temperature''))
        (fst (process_user_message echo_model (Some 0) ''Hello'' 1
                (quiet_world zero_override_conversation)))
       = Inr (PyInt 512, PyFloat 0.7)"
proof (intro conjI)
  show "generate_response mm h (PyInt 0) (PyFloat 0) = generate_response mm h PyNone PyNone"
    unfolding generate_response_def py_or_falsy by (rule refl)
  show "map_sum str
        (\<lambda>r. (dict_get (r_metadata r) ''max_tokens'', dict_get (r_metadata r) ''temperature''))
        (fst (process_user_message echo_model (Some 0) ''Hello'' 1
                (quiet_world zero_override_conversation)))
       = Inr (PyInt 512, PyFloat 0.7)"
  proof -
    have g: "get_or_create_conversation (Some 0) 1 (quiet_world zero_override_conversation)
        = (zero_override_conversation, quiet_world zero_override_conversation)"
      by (rule get_or_create_found)
         (simp_all add: Conversation_get_quiet_world zero_override_conversation_def
            example_conversation_fields)
    obtain conv u a w3 where ot:
      "open_turn (Some 0) ''Hello'' 1 (quiet_world zero_override_conversation) = (conv, u, a, w3)"
      by (metis prod_cases4)
    have cfg: "model_config conv = [(''max_tokens'', PyInt 0), (''temperature'', PyFloat 0)]"
      by (simp add: open_turn_parts(3) [OF g ot] zero_override_conversation_def)
    show ?thesis
      using process_user_message_success [OF ot generate_response_echo]
      by (simp add: cfg dict_get_def py_or_def settings_max_tokens_def settings_temperature_def)
  qed
  show "generate_response echo_model h (PyInt 0) (PyFloat 0) =
       Inr (format_conversation h,
            [(''model_used'', PyStr ''microsoft/DialoGPT-medium''),
             (''processing_time'', PyFloat 1),
             (''confidence_score'', PyFloat (calculate_confidence (format_conversation h))),
             (''max_tokens'', PyInt 512),
             (''temperature'', PyFloat 0.7),
             (''device'', PyStr ''cpu'')])"
    unfolding generate_response_def py_or_falsy
    by (simp add: echo_model_def settings_max_tokens_def settings_temperature_def
        settings_default_model_def Let_def)
qed

lemma confidence_bounds: "0.1 \<le> calculate_confidence text \<and> calculate_confidence text \<le> 0.9"
  by (simp add: calculate_confidence_def Let_def)

text \<open>
  Claim C10. The confidence computed for any text lies between 0.1 and 0.9, and after a
  call of \<open>process_user_message\<close> that returns, the stored assistant message is
  \<open>COMPLETED\<close> and its \<open>confidence_score\<close> is a number in that interval. Floating-point
  numbers are read as the reals they denote.
\<close>

theorem confidence_score_in_range:
  "0.1 \<le> calculate_confidence text \<and> calculate_confidence text \<le> 0.9
   \<and> (process_user_message mm conv_id msg uid w = (Inr r, w') \<longrightarrow>
        (\<exists>m v. find (\<lambda>m. m_id m = ai_message_id r) (messages w') = Some m
           \<and> message_type m = ASSISTANT \<and> m_status m = COMPLETED
           \<and> confidence_score m = PyFloat v \<and> 0.1 \<le> v \<and> v \<le> 0.9))"
proof -
  have "\<exists>m v. find (\<lambda>m. m_id m = ai_message_id r) (messages w') = Some m
           \<and> message_type m = ASSISTANT \<and> m_status m = COMPLETED
           \<and> confidence_score m = PyFloat v \<and> 0.1 \<le> v \<and> v \<le> 0.9"
    if run: "process_user_message mm conv_id msg uid w = (Inr r, w')"
  proof -
    obtain conv u a w3 where ot: "open_turn conv_id msg uid w = (conv, u, a, w3)"
      by (metis prod_cases4)
    let ?g = "generate_response mm (get_conversation_context conv w3)
           (dict_get (model_config conv) ''max_tokens'')
           (dict_get (model_config conv) ''temperature'')"
    show ?thesis
    proof (cases ?g)
      case (Inl e)
      from process_user_message_failure [OF ot Inl] run show ?thesis by simp
    next
      case (Inr p)
      obtain resp md where p: "p = (resp, md)" by (cases p)
      define a1 where "a1 = a\<lparr>content := resp, m_status := COMPLETED,
              model_used := dict_get md ''model_used'',
              confidence_score := dict_get md ''confidence_score'',
              processing_time := dict_get md ''processing_time'',
              m_metadata := md\<rparr>"
      from Inr p have g: "?g = Inr (resp, md)" by simp
      from process_user_message_success [OF ot g] run
      have r: "ai_message_id r = m_id a1" and w': "w' = Conversation_save conv (Message_save a1 w3)"
        by (auto simp: a1_def)
      have f: "find (\<lambda>m. m_id m = ai_message_id r) (messages w') = Some a1"
        unfolding r w' by (rule Message_find_save)
      have c: "confidence_score a1 = PyFloat (calculate_confidence resp)"
        using generate_response_confidence [OF g] by (simp add: a1_def)
      have t: "message_type a1 = ASSISTANT \<and> m_status a1 = COMPLETED"
        using open_turn_ai_type [OF ot] by (simp add: a1_def)
      from f c t confidence_bounds [of resp] show ?thesis by blast
    qed
  qed
  with confidence_bounds [of "text"] show ?thesis by blast
qed

theorem confidence_score_in_range_witness:
  "\<not> isl (fst (process_user_message echo_model None ''Hello'' 7 empty_world))
   \<and> (\<exists>m v. find (\<lambda>m. m_id m =
                 ai_message_id (projr (fst (process_user_message echo_model None ''Hello'' 7 empty_world))))
               (messages (snd (process_user_message echo_model None ''Hello'' 7 empty_world)))
             = Some m
          \<and> message_type m = ASSISTANT \<and> m_status m = COMPLETED
          \<and> confidence_score m = PyFloat v \<and> 0.1 \<le> v \<and> v \<le> 0.9)"
proof -
  obtain r where run: "process_user_message echo_model None ''Hello'' 7 empty_world
      = (Inr r, snd (process_user_message echo_model None ''Hello'' 7 empty_world))"
    using process_user_message_echo by blast
  have r: "fst (process_user_message echo_model None ''Hello'' 7 empty_world) = Inr r"
    using run by (metis fst_conv)
  from confidence_score_in_range
    [where mm = echo_model and conv_id = None and msg = "''Hello''" and uid = 7
       and w = empty_world and r = r
       and w' = "snd (process_user_message echo_model None ''Hello'' 7 empty_world)"] run
  show ?thesis by (simp add: r)
qed

section \<open>The turn\<close>

text \<open>
  Claim C1, as amended. When \<open>conversation_id\<close> is supplied and the referenced conversation
  does not exist or belongs to another user, the call does not fail: it proceeds exactly as
  a call without \<open>conversation_id\<close>. Its first write inserts a new conversation owned by
  the caller, and the user message and the assistant message are written into that
  conversation.
\<close>

theorem unowned_conversation_starts_new:
  assumes "\<forall>c. Conversation_get i w = Some c \<longrightarrow> user_id c \<noteq> uid"
  shows "process_user_message mm (Some i) text uid w = process_user_message mm None text uid w
    \<and> (\<exists>c u c1 a c2 a' rest.
          writes_during w (snd (process_user_message mm (Some i) text uid w))
            = InsertConversation c # InsertMessage u # SaveConversation c1
                # InsertMessage a # SaveConversation c2 # SaveMessage a' # rest
          \<and> c_id c = next_oid w \<and> user_id c = uid
          \<and> conversation_id u = next_oid w \<and> message_type u = USER \<and> content u = text
          \<and> conversation_id a = next_oid w \<and> message_type a = ASSISTANT
          \<and> m_id a' = m_id a)"
proof -
  have new: "Some i = None \<or>
      (\<exists>j. Some i = Some j \<and> (\<forall>c. Conversation_get j w = Some c \<longrightarrow> user_id c \<noteq> uid))"
    using assms by simp
  have new': "None = None \<or>
      (\<exists>j. None = Some j \<and> (\<forall>c. Conversation_get j w = Some c \<longrightarrow> user_id c \<noteq> uid))"
    by simp
  have same: "get_or_create_conversation (Some i) uid w = get_or_create_conversation None uid w"
    by (simp only: get_or_create_new [OF new] get_or_create_new [OF new'])
  have eq: "process_user_message mm (Some i) text uid w = process_user_message mm None text uid w"
    by (simp add: process_user_message_def open_turn_def same)
  define c where "c = (new_conversation uid (Some ''New Conversation'')
                 [(''max_tokens'', PyInt 512), (''temperature'', PyFloat 0.7)]
                 (clock w (ticks w)) (clock w (Suc (ticks w))))\<lparr>c_id := next_oid w\<rparr>"
  define w1 where "w1 = w\<lparr>conversations := conversations w @ [c],
                next_oid := Suc (next_oid w),
                ticks := Suc (Suc (ticks w)),
                journal := journal w @ [InsertConversation c]\<rparr>"
  have g: "get_or_create_conversation (Some i) uid w = (c, w1)"
    by (simp add: get_or_create_new [OF new] Let_def c_def w1_def)
  obtain conv u a w3 where ot: "open_turn (Some i) text uid w = (conv, u, a, w3)"
    by (metis prod_cases4)
  note p = open_turn_parts [OF g ot]
  define c1 where "c1 = c\<lparr>message_count := message_count c + 1,
                                 updated_at := clock w1 (Suc (ticks w1))\<rparr>"
  have j3: "journal w3 = journal w @ [InsertConversation c, InsertMessage u, SaveConversation c1,
       InsertMessage a, SaveConversation conv]"
    by (simp add: p(5) c1_def) (simp add: w1_def)
  have cf: "c_id c = next_oid w \<and> user_id c = uid"
    by (simp add: c_def new_conversation_def)
  have uf: "conversation_id u = next_oid w \<and> message_type u = USER \<and> content u = text"
    using cf by (simp add: p(1) new_message_def)
  have af: "conversation_id a = next_oid w \<and> message_type a = ASSISTANT"
    using cf by (simp add: p(2) new_message_def)
  let ?g = "generate_response mm (get_conversation_context conv w3)
           (dict_get (model_config conv) ''max_tokens'')
           (dict_get (model_config conv) ''temperature'')"
  have "\<exists>a' rest. m_id a' = m_id a \<and>
      journal (snd (process_user_message mm (Some i) text uid w)) = journal w3 @ SaveMessage a' # rest"
  proof (cases ?g)
    case (Inl e)
    show ?thesis
      by (simp add: process_user_message_failure [OF ot Inl] Message_save_def)
  next
    case (Inr q)
    obtain resp md where q: "q = (resp, md)" by (cases q)
    from Inr q have gen: "?g = Inr (resp, md)" by simp
    show ?thesis
      by (simp add: process_user_message_success [OF ot gen] Message_save_def Conversation_save_def)
  qed
  then obtain a' rest where a': "m_id a' = m_id a"
    and j: "journal (snd (process_user_message mm (Some i) text uid w)) = journal w3 @ SaveMessage a' # rest"
    by blast
  have "journal (snd (process_user_message mm (Some i) text uid w)) = journal w @
      (InsertConversation c # InsertMessage u # SaveConversation c1
                # InsertMessage a # SaveConversation conv # SaveMessage a' # rest)"
    by (simp add: j j3)
  from writes_during_append [OF this] cf uf af a' eq show ?thesis by blast
qed

theorem unowned_conversation_starts_new_witness:
  "Conversation_get 0 (quiet_world (example_conversation 10 0)) = Some (example_conversation 10 0)
   \<and> user_id (example_conversation 10 0) \<noteq> 2
   \<and> process_user_message echo_model (Some 0) ''Hello'' 2 (quiet_world (example_conversation 10 0))
       = process_user_message echo_model None ''Hello'' 2 (quiet_world (example_conversation 10 0))"
proof -
  have g: "Conversation_get 0 (quiet_world (example_conversation 10 0))
      = Some (example_conversation 10 0)"
    by (simp add: Conversation_get_quiet_world example_conversation_fields)
  have u: "user_id (example_conversation 10 0) \<noteq> 2"
    by (simp add: example_conversation_fields)
  have h: "\<forall>c. Conversation_get 0 (quiet_world (example_conversation 10 0)) = Some c
      \<longrightarrow> user_id c \<noteq> 2"
    using g u by simp
  show ?thesis
    using g u unowned_conversation_starts_new [OF h, of echo_model "''Hello''"] by simp
qed

text \<open>
  Claim C1 as stated fails. Conversation 0 belongs to user 1; a call by user 2 that names it
  returns normally, with the id of a new conversation 1, and both messages are stored in
  conversation 1.
\<close>

theorem unowned_conversation_counterexample:
  "map_sum str r_conversation_id
     (fst (process_user_message echo_model (Some 0) ''Hello'' 2
             (quiet_world (example_conversation 10 0)))) = Inr 1
   \<and> map conversation_id
        (messages (snd (process_user_message echo_model (Some 0) ''Hello'' 2
                          (quiet_world (example_conversation 10 0))))) = [1, 1]"
proof -
  have new: "Some 0 = None \<or> (\<exists>j. Some (0::nat) = Some j \<and>
      (\<forall>c. Conversation_get j (quiet_world (example_conversation 10 0)) = Some c \<longrightarrow> user_id c \<noteq> 2))"
    by (simp add: Conversation_get_quiet_world example_conversation_fields)
  show ?thesis
    unfolding process_user_message_def open_turn_eq get_or_create_new [OF new]
    by (simp add: generate_response_echo Let_def quiet_world_def new_message_def
        new_conversation_def example_conversation_fields
        upsert_def Message_save_def Conversation_save_def dict_get_default_def)
qed



text \<open>
  Claim C4. When generation raises after the two messages were inserted, the call re-raises
  the same exception; the stored assistant message is the placeholder with status \<open>FAILED\<close>
  and metadata \<open>{"error": str(e)}\<close>; the user message is stored; the collection has
  two messages more than before; and the stored conversation has a \<open>message_count\<close> that
  is 2 above the count of the conversation the call resolved.
\<close>

theorem generation_failure_is_recorded:
  assumes ot: "open_turn conv_id text uid w = (conv, u, a, w3)"
    and gen: "generate_response mm (get_conversation_context conv w3)
               (dict_get (model_config conv) ''max_tokens'')
               (dict_get (model_config conv) ''temperature'') = Inl e"
  shows "fst (process_user_message mm conv_id text uid w) = Inl e
    \<and> find (\<lambda>m. m_id m = m_id a) (messages (snd (process_user_message mm conv_id text uid w)))
        = Some (a\<lparr>m_status := FAILED, m_metadata := [(''error'', PyStr (str e))]\<rparr>)
    \<and> message_type a = ASSISTANT
    \<and> u \<in> set (messages (snd (process_user_message mm conv_id text uid w)))
    \<and> message_type u = USER \<and> content u = text
    \<and> length (messages (snd (process_user_message mm conv_id text uid w)))
        = length (messages w) + 2
    \<and> Conversation_get (c_id conv) (snd (process_user_message mm conv_id text uid w)) = Some conv
    \<and> message_count conv
        = message_count (fst (get_or_create_conversation conv_id uid w)) + 2"
proof -
  obtain c0 w1 where g: "get_or_create_conversation conv_id uid w = (c0, w1)"
    by (cases "get_or_create_conversation conv_id uid w")
  note p = open_turn_parts [OF g ot]
  define a' where "a' = a\<lparr>m_status := FAILED, m_metadata := [(''error'', PyStr (str e))]\<rparr>"
  have run: "process_user_message mm conv_id text uid w = (Inl e, Message_save a' w3)"
    unfolding a'_def using ot gen by (rule process_user_message_failure)
  have id: "m_id a' = m_id a" by (simp add: a'_def)
  have ne: "m_id u \<noteq> m_id a" by (simp add: p(1,2))
  have ms: "messages (Message_save a' w3)
      = map (\<lambda>d. if m_id d = m_id a' then a' else d) (messages w @ [u]) @ [a']"
    using upsert_snoc_any [of m_id a' a "messages w @ [u]"] id
    by (simp add: Message_save_def p(4))
  have f: "find (\<lambda>m. m_id m = m_id a) (messages (Message_save a' w3)) = Some a'"
    using find_upsert [of m_id a' "messages w3"] by (simp add: Message_save_def id)
  have um: "u \<in> set (messages (Message_save a' w3))"
    using ne by (simp add: ms id)
  have len: "length (messages (Message_save a' w3)) = length (messages w) + 2"
    by (simp add: ms)
  have cg: "Conversation_get (c_id conv) (Message_save a' w3) = Some conv"
    using p(6) by (simp add: Conversation_get_def Message_save_def)
  have cnt: "message_count conv = message_count c0 + 2"
    by (simp add: p(3))
  from f um len cg cnt open_turn_ai_type [OF ot] open_turn_user_type [OF ot]
  show ?thesis by (simp add: run g a'_def)
qed

theorem generation_failure_is_recorded_witness:
  "fst (process_user_message failing_model None ''Hello'' 7 empty_world)
     = Inl (Exception ''out of memory'')
   \<and> find (\<lambda>m. m_id m = m_id (fst (snd (snd (open_turn None ''Hello'' 7 empty_world)))))
        (messages (snd (process_user_message failing_model None ''Hello'' 7 empty_world)))
      = Some ((fst (snd (snd (open_turn None ''Hello'' 7 empty_world))))
               \<lparr>m_status := FAILED, m_metadata := [(''error'', PyStr ''out of memory'')]\<rparr>)
   \<and> length (messages (snd (process_user_message failing_model None ''Hello'' 7 empty_world))) = 2
   \<and> message_count (fst (open_turn None ''Hello'' 7 empty_world)) = 2"
proof -
  obtain conv u a w3 where ot: "open_turn None ''Hello'' 7 empty_world = (conv, u, a, w3)"
    by (metis prod_cases4)
  have c0: "message_count (fst (get_or_create_conversation None 7 empty_world)) = 0"
    by (simp add: get_or_create_new Let_def new_conversation_def)
  have e: "messages empty_world = []" by (simp add: empty_world_def)
  from generation_failure_is_recorded [OF ot generate_response_failing] c0 e
  show ?thesis by (simp add: ot)
qed

text \<open>
  Claim C6. In every state reached by the operations of the backend, after a call of
  \<open>process_user_message\<close> that returns, the \<open>message_count\<close> of every stored conversation
  is the number of stored messages whose \<open>conversation_id\<close> is the conversation's id.
\<close>

theorem message_count_matches_store:
  assumes "reachable w" and "process_user_message mm conv_id text uid w = (Inr r, w')"
  shows "\<forall>c \<in> set (conversations w').
           message_count c =
             int (length (filter (\<lambda>m. conversation_id m = c_id c) (messages w')))"
proof -
  have "store_ok (snd (process_user_message mm conv_id text uid w))"
    using assms(1) by (intro store_ok_process_user_message reachable_store_ok)
  then show ?thesis
    using assms(2) by (simp add: store_ok_def counts_agree_def)
qed

theorem message_count_matches_store_witness:
  "reachable empty_world
   \<and> \<not> isl (fst (process_user_message echo_model None ''Hello'' 7 empty_world))
   \<and> conversations (snd (process_user_message echo_model None ''Hello'' 7 empty_world)) \<noteq> []
   \<and> list_all
        (\<lambda>c. message_count c =
           int (length (filter (\<lambda>m. conversation_id m = c_id c)
                  (messages (snd (process_user_message echo_model None ''Hello'' 7 empty_world))))))
        (conversations (snd (process_user_message echo_model None ''Hello'' 7 empty_world)))"
proof -
  obtain r where run: "process_user_message echo_model None ''Hello'' 7 empty_world
      = (Inr r, snd (process_user_message echo_model None ''Hello'' 7 empty_world))"
    using process_user_message_echo by blast
  obtain conv u a w3 where ot: "open_turn None ''Hello'' 7 empty_world = (conv, u, a, w3)"
    by (metis prod_cases4)
  have ne: "conversations (snd (process_user_message echo_model None ''Hello'' 7 empty_world)) \<noteq> []"
    by (simp add: process_user_message_success [OF ot generate_response_echo]
        Conversation_save_def upsert_not_Nil)
  have r: "\<not> isl (fst (process_user_message echo_model None ''Hello'' 7 empty_world))"
    using run by (metis fst_conv sum.disc(2))
  from message_count_matches_store [OF reachable_empty_world run] ne r reachable_empty_world
  show ?thesis by (simp add: list_all_iff)
qed

text \<open>
  Claim C8 at \<open>context_window = 1\<close>. The window query runs after the placeholder was
  inserted and keeps the single newest message, which is the placeholder; the status filter
  then removes it. The context is empty, and the prompt the language model receives holds no
  user message.
\<close>

theorem window_one_context_is_empty:
  "(case open_turn (Some 0) ''Hello'' 1 (quiet_world (example_conversation 1 0)) of
      (conv, u, a, w3) \<Rightarrow> get_conversation_context conv w3) = []
   \<and> map_sum str response
        (fst (process_user_message echo_model (Some 0) ''Hello'' 1
                (quiet_world (example_conversation 1 0)))) = Inr ''Assistant: ''"
proof -
  have g: "get_or_create_conversation (Some 0) 1 (quiet_world (example_conversation 1 0))
      = (example_conversation 1 0, quiet_world (example_conversation 1 0))"
    by (rule get_or_create_found)
       (simp_all add: Conversation_get_quiet_world example_conversation_fields)
  have ctx: "(case open_turn (Some 0) ''Hello'' 1 (quiet_world (example_conversation 1 0)) of
      (conv, u, a, w3) \<Rightarrow> get_conversation_context conv w3) = []"
    unfolding open_turn_eq g
    by (simp add: Let_def quiet_world_def new_message_def example_conversation_fields
        get_conversation_context_def get_messages_def limit_def sort_newest_first_def)
  obtain conv u a w3 where ot:
    "open_turn (Some 0) ''Hello'' 1 (quiet_world (example_conversation 1 0)) = (conv, u, a, w3)"
    by (metis prod_cases4)
  from ctx ot have c: "get_conversation_context conv w3 = []" by simp
  have "fst (process_user_message echo_model (Some 0) ''Hello'' 1
                (quiet_world (example_conversation 1 0)))
      = Inr \<lparr>r_conversation_id = c_id conv, user_message_id = m_id u, ai_message_id = m_id a,
           response = format_conversation (get_conversation_context conv w3),
           r_metadata = snd (projr (generate_response echo_model (get_conversation_context conv w3)
             (dict_get (model_config conv) ''max_tokens'')
             (dict_get (model_config conv) ''temperature'')))\<rparr>"
    using process_user_message_success [OF ot generate_response_echo]
    by (simp add: generate_response_echo)
  then show ?thesis
    using ctx by (simp add: c format_conversation_def slice_from_def)
qed

section \<open>Further properties\<close>

lemma foldr_insort_keeps_front:
  assumes "\<forall>x \<in> set xs. f p < f x \<and> f q < f x"
  shows "foldr (insort_key f) xs (p # q # r) = p # q # foldr (insort_key f) xs r"
  using assms
proof (induction xs)
  case Nil
  show ?case by simp
next
  case (Cons x xs)
  then have "\<not> f x \<le> f p" "\<not> f x \<le> f q" by auto
  with Cons show ?case by simp
qed

lemma sort_newest_first_snoc2:
  assumes older: "\<forall>m \<in> set ms. timestamp m < timestamp u"
    and order: "timestamp u \<le> timestamp a"
  shows "\<exists>r. sort_newest_first (ms @ [u, a]) = u # a # r
           \<or> sort_newest_first (ms @ [u, a]) = a # u # r"
proof -
  let ?f = "\<lambda>m. - timestamp m"
  have two: "foldr (insort_key ?f) [u, a] [] = [u, a] \<or> foldr (insort_key ?f) [u, a] [] = [a, u]"
    by simp
  have front: "\<forall>x \<in> set ms. ?f u < ?f x \<and> ?f a < ?f x"
    using older order by auto
  have front': "\<forall>x \<in> set ms. ?f a < ?f x \<and> ?f u < ?f x"
    using front by blast
  have s: "sort_newest_first (ms @ [u, a]) = foldr (insort_key ?f) ms (foldr (insort_key ?f) [u, a] [])"
    by (simp add: sort_newest_first_def sort_key_def)
  from two show ?thesis
  proof
    assume "foldr (insort_key ?f) [u, a] [] = [u, a]"
    then have "sort_newest_first (ms @ [u, a]) = u # a # foldr (insort_key ?f) ms []"
      using foldr_insort_keeps_front [OF front, of "[]"] s by simp
    then show ?thesis by blast
  next
    assume "foldr (insort_key ?f) [u, a] [] = [a, u]"
    then have "sort_newest_first (ms @ [u, a]) = a # u # foldr (insort_key ?f) ms []"
      using foldr_insort_keeps_front [OF front', of "[]"] s by simp
    then show ?thesis by blast
  qed
qed

lemma limit_front2:
  "2 \<le> n \<Longrightarrow> limit n (p # q # r) = p # q # take (nat n - 2) r"
  by (simp add: limit_def take_Cons' nat_diff_distrib numeral_2_eq_2) 

text \<open>
  Property X1. When \<open>context_window\<close> is at least 2, the earlier messages of the
  conversation are older than the new user message, and the clock does not run backwards
  between the two insertions, the context built after the first three steps is not empty,
  its last entry is the user turn with the text of the call, and the placeholder is not
  among its sources.
\<close>

theorem user_turn_is_newest_entry:
  assumes ot: "open_turn conv_id text uid w = (conv, u, a, w3)"
    and win: "2 \<le> context_window conv"
    and older: "\<forall>m \<in> set (messages w). conversation_id m = c_id conv \<longrightarrow> timestamp m < timestamp u"
    and order: "timestamp u \<le> timestamp a"
  shows "get_conversation_context conv w3 \<noteq> []
       \<and> last (get_conversation_context conv w3) = \<lparr>role = ''user'', turn_content = text\<rparr>
       \<and> a \<notin> set (context_sources conv w3)"
proof -
  obtain c0 w1 where g: "get_or_create_conversation conv_id uid w = (c0, w1)"
    by (cases "get_or_create_conversation conv_id uid w")
  note p = open_turn_parts [OF g ot]
  have ids: "conversation_id u = c_id conv" "conversation_id a = c_id conv"
    by (simp_all add: p(1,2,3) new_message_def)
  have st: "m_status u = COMPLETED" "m_status a = PROCESSING" "message_type u = USER"
    "content u = text"
    using open_turn_user_type [OF ot] open_turn_ai_type [OF ot] by simp_all
  let ?F = "filter (\<lambda>m. conversation_id m = c_id conv) (messages w)"
  have F: "filter (\<lambda>m. conversation_id m = c_id conv) (messages w3) = ?F @ [u, a]"
    by (simp add: p(4) ids)
  have "\<forall>m \<in> set ?F. timestamp m < timestamp u"
    using older by simp
  from sort_newest_first_snoc2 [OF this order]
  obtain r where "sort_newest_first (?F @ [u, a]) = u # a # r
           \<or> sort_newest_first (?F @ [u, a]) = a # u # r"
    by blast
  then have "get_messages conv (context_window conv) w3 = u # a # take (nat (context_window conv) - 2) r
      \<or> get_messages conv (context_window conv) w3 = a # u # take (nat (context_window conv) - 2) r"
    by (auto simp: get_messages_def F limit_front2 [OF win])
  then have src: "\<exists>xs. context_sources conv w3 = xs @ [u]"
    using st by (auto simp: context_sources_def)
  then obtain xs where xs: "context_sources conv w3 = xs @ [u]" by blast
  have "turn_of u = \<lparr>role = ''user'', turn_content = text\<rparr>"
    using st by (simp add: turn_of_def)
  moreover have "a \<notin> set (context_sources conv w3)"
    using st by (auto simp: context_sources_def)
  ultimately show ?thesis
    by (simp add: context_is_map_of_sources xs)
qed

theorem user_turn_is_newest_entry_witness:
  "2 \<le> context_window (fst (open_turn (Some 0) ''Hello'' 1 (history_world 10)))
   \<and> last (get_conversation_context
             (fst (open_turn (Some 0) ''Hello'' 1 (history_world 10)))
             (snd (snd (snd (open_turn (Some 0) ''Hello'' 1 (history_world 10))))))
       = \<lparr>role = ''user'', turn_content = ''Hello''\<rparr>"
proof -
  obtain conv u a w3 where ot:
    "open_turn (Some 0) ''Hello'' 1 (history_world 10) = (conv, u, a, w3)"
    by (metis prod_cases4)
  have g: "get_or_create_conversation (Some 0) 1 (history_world 10)
      = (example_conversation 10 5, history_world 10)"
    by (rule get_or_create_found)
       (simp_all add: Conversation_get_history_world example_conversation_fields)
  note p = open_turn_parts [OF g ot]
  have win: "2 \<le> context_window conv"
    by (simp add: p(3) example_conversation_fields)
  have ts: "timestamp u = 100" "timestamp a = 102"
    by (simp_all add: p(1,2) new_message_def history_world_def)
  have older: "\<forall>m \<in> set (messages (history_world 10)).
      conversation_id m = c_id conv \<longrightarrow> timestamp m < timestamp u"
    by (simp add: ts history_world_def example_history_def example_message_def)
  have order: "timestamp u \<le> timestamp a"
    by (simp add: ts)
  from user_turn_is_newest_entry [OF ot win older order] win ot
  show ?thesis by simp
qed

text \<open>
  Property X2. Overrides that are truthy are the parameters the pipeline is called with
  and the ones the metadata records.
\<close>

theorem truthy_overrides_are_used:
  assumes "truthy mt" and "truthy t"
  shows "generate_response mm h mt t =
     (case conversation_pipeline mm (format_conversation h) mt t of
        Inl e \<Rightarrow> Inl e
      | Inr text \<Rightarrow>
          Inr (text,
               [(''model_used'', PyStr settings_default_model),
                (''processing_time'', PyFloat (time_end mm - time_start mm)),
                (''confidence_score'', PyFloat (calculate_confidence text)),
                (''max_tokens'', mt),
                (''temperature'', t),
                (''device'', PyStr (device mm))]))"
proof -
  have "py_or mt (PyInt settings_max_tokens) = mt" "py_or t (PyFloat settings_temperature) = t"
    using assms by (simp_all add: py_or_def)
  then show ?thesis
    unfolding generate_response_cases by (simp only:)
qed

theorem truthy_overrides_are_used_witness:
  "truthy (PyInt 256) \<and> truthy (PyFloat 0.2)
   \<and> generate_response echo_model [] (PyInt 256) (PyFloat 0.2) =
      Inr (''Assistant: '',
           [(''model_used'', PyStr settings_default_model),
            (''processing_time'', PyFloat 1),
            (''confidence_score'', PyFloat (calculate_confidence ''Assistant: '')),
            (''max_tokens'', PyInt 256),
            (''temperature'', PyFloat 0.2),
            (''device'', PyStr ''cpu'')])"
proof -
  have a: "truthy (PyInt 256)" and b: "truthy (PyFloat 0.2)" by simp_all
  show ?thesis
    using a b truthy_overrides_are_used [OF a b, of echo_model "[]"]
    by (simp add: echo_model_def format_conversation_def slice_from_def)
qed

text \<open>
  Property X3. Deleting a conversation as its owner removes the conversation and all of its
  messages, and leaves the messages of other conversations in place.
\<close>

theorem delete_removes_messages:
  assumes "Conversation_get i w = Some c" and "user_id c = uid"
  shows "fst (delete_conversation i uid w) = Inr ''Conversation deleted successfully''
       \<and> Conversation_get i (snd (delete_conversation i uid w)) = None
       \<and> filter (\<lambda>m. conversation_id m = i) (messages (snd (delete_conversation i uid w))) = []
       \<and> filter (\<lambda>m. conversation_id m \<noteq> i) (messages (snd (delete_conversation i uid w)))
           = filter (\<lambda>m. conversation_id m \<noteq> i) (messages w)"
proof -
  have id: "c_id c = i" using assms(1) by (rule Conversation_get_id)
  have "find (\<lambda>d. c_id d = i) (filter (\<lambda>d. c_id d \<noteq> i) (conversations w)) = None"
    by (simp add: find_None_iff)
  then show ?thesis
    using assms id
    by (simp add: delete_conversation_def Conversation_delete_def
        Message_delete_by_conversation_def Conversation_get_def)
qed

theorem delete_removes_messages_witness:
  "Conversation_get 0 (history_world 10) = Some (example_conversation 10 5)
   \<and> user_id (example_conversation 10 5) = 1
   \<and> messages (history_world 10) \<noteq> []
   \<and> messages (snd (delete_conversation 0 1 (history_world 10))) = []
   \<and> Conversation_get 0 (snd (delete_conversation 0 1 (history_world 10))) = None"
proof -
  have g: "Conversation_get 0 (history_world 10) = Some (example_conversation 10 5)"
    by (rule Conversation_get_history_world)
  have u: "user_id (example_conversation 10 5) = 1"
    by (simp add: example_conversation_fields)
  have m: "messages (history_world 10) = example_history"
    by (simp add: history_world_def)
  have all: "filter (\<lambda>m. conversation_id m \<noteq> 0) example_history = []"
    by (simp add: example_history_def example_message_def)
  have "messages (snd (delete_conversation 0 1 (history_world 10))) = []"
    using g u all by (simp add: delete_conversation_def Conversation_delete_def
        Message_delete_by_conversation_def m)
  then show ?thesis
    using g u delete_removes_messages [OF g u] by (simp add: m example_history_def)
qed

text \<open>
  Property X4. A call that names a conversation owned by the caller and returns answers with
  that conversation's id, and of the stored conversation it changes \<open>message_count\<close>, by
  2, and \<open>updated_at\<close> only. In particular \<open>total_tokens_used\<close> stays as it was: the metadata
  of \<open>generate_response\<close> has no \<open>tokens_used\<close> entry.
\<close>

theorem turn_on_existing_conversation:
  assumes g: "Conversation_get i w = Some c" and own: "user_id c = uid"
    and run: "process_user_message mm (Some i) text uid w = (Inr r, w')"
  shows "r_conversation_id r = i
       \<and> Conversation_get i w'
           = Some (c\<lparr>message_count := message_count c + 2,
                     updated_at := clock w (Suc (Suc (Suc (ticks w))))\<rparr>)"
proof -
  have goc: "get_or_create_conversation (Some i) uid w = (c, w)"
    using g own by (rule get_or_create_found)
  have id: "c_id c = i" using g by (rule Conversation_get_id)
  obtain conv u a w3 where ot: "open_turn (Some i) text uid w = (conv, u, a, w3)"
    by (metis prod_cases4)
  note p = open_turn_parts [OF goc ot]
  let ?g = "generate_response mm (get_conversation_context conv w3)
           (dict_get (model_config conv) ''max_tokens'')
           (dict_get (model_config conv) ''temperature'')"
  show ?thesis
  proof (cases ?g)
    case (Inl e)
    from process_user_message_failure [OF ot Inl] run show ?thesis by simp
  next
    case (Inr q)
    obtain resp md where q: "q = (resp, md)" by (cases q)
    from Inr q have gen: "?g = Inr (resp, md)" by simp
    from process_user_message_success [OF ot gen] run
    have r: "r_conversation_id r = c_id conv" and w': "Conversation_get (c_id conv) w' = Some conv"
      by (auto simp: Conversation_get_save)
    from r w' id show ?thesis by (simp add: p(3))
  qed
qed

theorem turn_on_existing_conversation_witness:
  "Conversation_get 0 (history_world 10) = Some (example_conversation 10 5)
   \<and> user_id (example_conversation 10 5) = 1
   \<and> \<not> isl (fst (process_user_message echo_model (Some 0) ''Hello'' 1 (history_world 10)))
   \<and> Conversation_get 0 (snd (process_user_message echo_model (Some 0) ''Hello'' 1 (history_world 10)))
       = Some ((example_conversation 10 5)\<lparr>message_count := 7, updated_at := 103\<rparr>)"
proof -
  have g: "Conversation_get 0 (history_world 10) = Some (example_conversation 10 5)"
    by (rule Conversation_get_history_world)
  have u: "user_id (example_conversation 10 5) = 1"
    by (simp add: example_conversation_fields)
  obtain r where run: "process_user_message echo_model (Some 0) ''Hello'' 1 (history_world 10)
      = (Inr r, snd (process_user_message echo_model (Some 0) ''Hello'' 1 (history_world 10)))"
    using process_user_message_echo by blast
  have r: "\<not> isl (fst (process_user_message echo_model (Some 0) ''Hello'' 1 (history_world 10)))"
    using run by (metis fst_conv sum.disc(2))
  have k: "clock (history_world 10) (Suc (Suc (Suc (ticks (history_world 10))))) = 103"
    by (simp add: history_world_def)
  from turn_on_existing_conversation [OF g u run] g u r
  show ?thesis by (simp add: k example_conversation_fields)
qed

end
